theory Spec2Isabelle
  imports Main "HOL-Library.Sublist"
begin

section \<open>Python values used by airtable\_mcp\_server.py\<close>

text \<open>
  Python strings are lists of characters. A decoded JSON document (the result of
  \<^verbatim>\<open>json.loads\<close> or \<^verbatim>\<open>response.json()\<close>) is a value of type \<open>json\<close>; a dict keeps its
  items as an association list with distinct keys. A float is kept as its literal text:
  the program never computes with one.
\<close>

datatype json =
    JNull
  | JBool bool
  | JInt int
  | JFloat string
  | JStr string
  | JArr "json list"
  | JObj "(string \<times> json) list"

text \<open>
  Exceptions. \<open>AirtableAPIError error_type message status_code\<close> is the class of the
  source; \<open>PyException cls msg\<close> is any other exception derived from
  \<^verbatim>\<open>Exception\<close> (class name and \<^verbatim>\<open>str(e)\<close>); \<open>PyBaseException cls msg\<close> is an exception
  outside \<^verbatim>\<open>Exception\<close> (KeyboardInterrupt, SystemExit, GeneratorExit), which
  \<^verbatim>\<open>except Exception\<close> does not catch.
\<close>

datatype exn =
    AirtableAPIError json json nat
  | PyException string string
  | PyBaseException string string

datatype http_method = GET | POST | PATCH | DELETE

record request =
  req_method :: http_method
  req_url :: string
  req_headers :: "(string \<times> string) list"
  req_params :: "(string \<times> json) list"
  req_json :: "json option"
  req_timeout :: nat

text \<open>
  What the three statements of a client method's \<^verbatim>\<open>try\<close> block
  (\<^verbatim>\<open>requests.<verb>(...)\<close>, \<^verbatim>\<open>response.raise_for_status()\<close>, \<^verbatim>\<open>return response.json()\<close>)
  do, classified by the handler that takes the outcome:
  \<^item> \<open>Returned v\<close>: all three succeed and the body decodes to \<open>v\<close>;
  \<^item> \<open>Raised_HTTPError status body msg\<close>: an \<^verbatim>\<open>HTTPError e\<close> with
    \<^verbatim>\<open>e.response.status_code = status\<close>, \<^verbatim>\<open>str(e) = msg\<close>, and \<open>body\<close> the value of
    \<^verbatim>\<open>e.response.json()\<close>, or \<open>None\<close> when that call raises;
  \<^item> \<open>Raised_RequestException msg\<close>: any other \<^verbatim>\<open>RequestException\<close> (no HTTP response:
    DNS failure, refused connection, timeout), with its \<^verbatim>\<open>str(e)\<close>;
  \<^item> \<open>Raised_Other e\<close>: an exception outside \<^verbatim>\<open>RequestException\<close>.
\<close>

datatype http_outcome =
    Returned json
  | Raised_HTTPError nat "json option" string
  | Raised_RequestException string
  | Raised_Other exn

text \<open>
  \<^verbatim>\<open>json.loads(s)\<close>: a value, a \<^verbatim>\<open>JSONDecodeError\<close> with its \<^verbatim>\<open>str(e)\<close>, or
  another exception (a RecursionError on deep nesting).
\<close>

datatype loads_result =
    Loads_Ok json
  | Loads_JSONDecodeError string
  | Loads_Raises exn

text \<open>
  The surroundings of the program, none of which is code of the repository: the process
  environment, the JSON decoder, the HTTP library and upstream service, Python's
  per-process string hash, and \<^verbatim>\<open>str()\<close> of a decoded JSON value that is not a string.
\<close>

record world =
  getenv_AIRTABLE_API_KEY :: "string option"
  json_loads :: "string \<Rightarrow> loads_result"
  http :: "request \<Rightarrow> http_outcome"
  py_hash :: "string \<Rightarrow> int"
  py_format :: "json \<Rightarrow> string"

record client =
  api_key :: string
  base_url :: string
  headers :: "(string \<times> string) list"

text \<open>
  The mutable state: the global \<^verbatim>\<open>airtable_client\<close> and the trace of the network calls
  issued so far.
\<close>

record state =
  airtable_client :: "client option"
  network_calls :: "request list"

record envelope =
  data :: "(string \<times> json) list"
  error :: string
  successful :: bool

type_synonym 'a io = "state \<Rightarrow> (exn + 'a) \<times> state"

subsection \<open>Sequencing\<close>

definition returns :: "'a \<Rightarrow> 'a io" where
  "returns x = (\<lambda>s. (Inr x, s))"

definition raise :: "exn \<Rightarrow> 'a io" where
  "raise e = (\<lambda>s. (Inl e, s))"

definition bind_io :: "'a io \<Rightarrow> ('a \<Rightarrow> 'b io) \<Rightarrow> 'b io" where
  "bind_io m f = (\<lambda>s. case m s of (Inl e, s') \<Rightarrow> (Inl e, s') | (Inr x, s') \<Rightarrow> f x s')"

definition bind_exn :: "exn + 'a \<Rightarrow> ('a \<Rightarrow> exn + 'b) \<Rightarrow> exn + 'b" where
  "bind_exn r f = (case r of Inl e \<Rightarrow> Inl e | Inr x \<Rightarrow> f x)"

definition lift :: "exn + 'a \<Rightarrow> 'a io" where
  "lift r = (\<lambda>s. (r, s))"

subsection \<open>Strings\<close>

text \<open>
  \<^verbatim>\<open>str.isspace\<close> on the code points below 256: TAB, LF, VT, FF, CR, the separators
  0x1C to 0x1F, space, NEL and the no-break space.
\<close>

definition py_isspace :: "char \<Rightarrow> bool" where
  "py_isspace c = (c \<in> set [CHR 0x09, CHR 0x0A, CHR 0x0B, CHR 0x0C, CHR 0x0D,
                              CHR 0x1C, CHR 0x1D, CHR 0x1E, CHR 0x1F, CHR 0x20,
                              CHR 0x85, CHR 0xA0])"

definition strip :: "string \<Rightarrow> string" where
  "strip s = rev (dropWhile py_isspace (rev (dropWhile py_isspace s)))"

text \<open>The test \<^verbatim>\<open>not x or not x.strip()\<close> of every required parameter.\<close>

definition blank :: "string \<Rightarrow> bool" where
  "blank x = (x = [] \<or> strip x = [])"

definition digit_char :: "nat \<Rightarrow> char" where
  "digit_char d = (if d = 0 then CHR ''0'' else if d = 1 then CHR ''1''
     else if d = 2 then CHR ''2'' else if d = 3 then CHR ''3''
     else if d = 4 then CHR ''4'' else if d = 5 then CHR ''5''
     else if d = 6 then CHR ''6'' else if d = 7 then CHR ''7''
     else if d = 8 then CHR ''8'' else CHR ''9'')"

text \<open>The decimal text of a natural number, as an f-string prints it.\<close>

fun str_nat :: "nat \<Rightarrow> string" where
  "str_nat n = (if n < 10 then [digit_char n]
                else str_nat (n div 10) @ [digit_char (n mod 10)])"

declare str_nat.simps [simp del]

text \<open>\<^verbatim>\<open>sub in s\<close> on strings.\<close>

fun contains :: "string \<Rightarrow> string \<Rightarrow> bool" where
  "contains [] sub = (sub = [])"
| "contains (c # cs) sub = (prefix sub (c # cs) \<or> contains cs sub)"

subsection \<open>Operations on decoded JSON values\<close>

definition type_name :: "json \<Rightarrow> string" where
  "type_name v = (case v of JNull \<Rightarrow> ''NoneType'' | JBool _ \<Rightarrow> ''bool'' | JInt _ \<Rightarrow> ''int''
     | JFloat _ \<Rightarrow> ''float'' | JStr _ \<Rightarrow> ''str'' | JArr _ \<Rightarrow> ''list'' | JObj _ \<Rightarrow> ''dict'')"

text \<open>\<^verbatim>\<open>v.get(key, default)\<close>: only a dict has the method.\<close>

definition py_get :: "json \<Rightarrow> string \<Rightarrow> json \<Rightarrow> exn + json" where
  "py_get v key dflt = (case v of
       JObj items \<Rightarrow> (case map_of items key of Some x \<Rightarrow> Inr x | None \<Rightarrow> Inr dflt)
     | _ \<Rightarrow> Inl (PyException ''AttributeError''
                  ([CHR 0x27] @ type_name v @ [CHR 0x27] @ '' object has no attribute 'get'' @ [CHR 0x27])))"

text \<open>\<^verbatim>\<open>len(v)\<close>.\<close>

definition py_len :: "json \<Rightarrow> exn + nat" where
  "py_len v = (case v of
       JArr xs \<Rightarrow> Inr (length xs)
     | JObj items \<Rightarrow> Inr (length items)
     | JStr s \<Rightarrow> Inr (length s)
     | _ \<Rightarrow> Inl (PyException ''TypeError''
                  (''object of type '' @ [CHR 0x27] @ type_name v @ [CHR 0x27] @ '' has no len()'')))"

text \<open>\<^verbatim>\<open>isinstance(v, dict)\<close> and \<^verbatim>\<open>key in v\<close> for a dict \<open>v\<close>.\<close>

definition is_dict :: "json \<Rightarrow> bool" where
  "is_dict v = (case v of JObj _ \<Rightarrow> True | _ \<Rightarrow> False)"

definition has_key :: "string \<Rightarrow> json \<Rightarrow> bool" where
  "has_key key v = (case v of JObj items \<Rightarrow> key \<in> set (map fst items) | _ \<Rightarrow> False)"

text \<open>\<^verbatim>\<open>str(v)\<close> inside an f-string.\<close>

definition format_value :: "world \<Rightarrow> json \<Rightarrow> string" where
  "format_value w v = (case v of JStr s \<Rightarrow> s | _ \<Rightarrow> py_format w v)"

text \<open>
  \<^verbatim>\<open>str(e)\<close>. \<^verbatim>\<open>AirtableAPIError.__init__\<close> passes
  \<^verbatim>\<open>f"Airtable API Error ({error_type}): {message}"\<close> to \<^verbatim>\<open>Exception.__init__\<close>.
\<close>

definition py_str :: "world \<Rightarrow> exn \<Rightarrow> string" where
  "py_str w e = (case e of
       AirtableAPIError error_type message status_code \<Rightarrow>
         ''Airtable API Error ('' @ format_value w error_type @ ''): '' @ format_value w message
     | PyException cls msg \<Rightarrow> msg
     | PyBaseException cls msg \<Rightarrow> msg)"

section \<open>The client\<close>

definition AirtableClient :: "string \<Rightarrow> client" where
  "AirtableClient key =
     \<lparr>api_key = key,
      base_url = ''https://api.airtable.com/v0'',
      headers = [(''Authorization'', ''Bearer '' @ key), (''Content-Type'', ''application/json'')]\<rparr>"

text \<open>\<^verbatim>\<open>get_airtable_client\<close>: the client is built on first use from the environment.\<close>

definition get_airtable_client :: "world \<Rightarrow> client io" where
  "get_airtable_client w = (\<lambda>s.
     case airtable_client s of
       Some c \<Rightarrow> (Inr c, s)
     | None \<Rightarrow>
        (case getenv_AIRTABLE_API_KEY w of
           None \<Rightarrow> (Inl (PyException ''ValueError''
                           ''AIRTABLE_API_KEY environment variable is required''), s)
         | Some key \<Rightarrow>
             if key = [] then (Inl (PyException ''ValueError''
                                     ''AIRTABLE_API_KEY environment variable is required''), s)
             else (Inr (AirtableClient key), s\<lparr>airtable_client := Some (AirtableClient key)\<rparr>)))"

text \<open>
  The \<^verbatim>\<open>except HTTPError\<close> handler, the same in all sixteen network methods. A bare
  \<^verbatim>\<open>except\<close> keeps \<^verbatim>\<open>error_response = {}\<close> when the body does not decode; \<^verbatim>\<open>.get\<close> on a
  decoded body that is not a dict raises AttributeError out of the handler.
\<close>

definition http_error_handler :: "nat \<Rightarrow> json option \<Rightarrow> string \<Rightarrow> exn" where
  "http_error_handler status body str_e =
     (let error_response = (case body of Some v \<Rightarrow> v | None \<Rightarrow> JObj []) in
      case bind_exn (py_get error_response ''error'' (JObj []))
             (\<lambda>err. py_get err ''type'' (JStr ''unknown_error'')) of
        Inl e \<Rightarrow> e
      | Inr error_code \<Rightarrow>
         (case bind_exn (py_get error_response ''error'' (JObj []))
                 (\<lambda>err. py_get err ''message'' (JStr str_e)) of
            Inl e \<Rightarrow> e
          | Inr error_message \<Rightarrow> AirtableAPIError error_code error_message status))"

text \<open>
  The \<^verbatim>\<open>try\<close> statement of a network method: issue the call, return the decoded body,
  or raise what the handlers raise.
\<close>

definition send_request :: "world \<Rightarrow> request \<Rightarrow> json io" where
  "send_request w req = (\<lambda>s.
     let s' = s\<lparr>network_calls := network_calls s @ [req]\<rparr> in
     case http w req of
       Returned v \<Rightarrow> (Inr v, s')
     | Raised_HTTPError status body str_e \<Rightarrow> (Inl (http_error_handler status body str_e), s')
     | Raised_RequestException str_e \<Rightarrow>
         (Inl (AirtableAPIError (JStr ''network_error'') (JStr (''Network error: '' @ str_e)) 0), s')
     | Raised_Other e \<Rightarrow> (Inl e, s'))"

text \<open>\<^verbatim>\<open>sep.join(xs)\<close>.\<close>

fun join :: "string \<Rightarrow> string list \<Rightarrow> string" where
  "join sep [] = []"
| "join sep [x] = x"
| "join sep (x # y # ys) = x @ sep @ join sep (y # ys)"

text \<open>A call \<^verbatim>\<open>requests.<verb>(url, headers=self.headers, ..., timeout=10)\<close>.\<close>

definition mk_request ::
  "client \<Rightarrow> http_method \<Rightarrow> string \<Rightarrow> (string \<times> json) list \<Rightarrow> json option \<Rightarrow> request" where
  "mk_request c m u ps payload =
     \<lparr>req_method = m, req_url = u, req_headers = headers c, req_params = ps,
      req_json = payload, req_timeout = 10\<rparr>"

text \<open>
  \<^verbatim>\<open>AirtableClient.create_base\<close> issues no network call: it returns a placeholder whose
  identifier comes from \<^verbatim>\<open>hash(name) % 1000000\<close>.
\<close>

definition client_create_base :: "world \<Rightarrow> client \<Rightarrow> string \<Rightarrow> json list \<Rightarrow> string \<Rightarrow> json io" where
  "client_create_base w c name tables workspace_id =
     returns (JObj
       [(''base'', JObj [(''id'', JStr (''app'' @ str_nat (nat (py_hash w name mod 1000000)))),
                         (''name'', JStr name),
                         (''permissionLevel'', JStr ''create'')]),
        (''message'', JStr ''Base configuration validated successfully. Note: Airtable API does not support programmatic base creation. This configuration can be used to manually create the base in the Airtable interface.'')])"

definition create_comment_request :: "client \<Rightarrow> string \<Rightarrow> string \<Rightarrow> string \<Rightarrow> string \<Rightarrow> request" where
  "create_comment_request c base_id record_id table_id_or_name text =
     mk_request c POST
       (base_url c @ ''/'' @ base_id @ ''/'' @ table_id_or_name @ ''/'' @ record_id @ ''/comments'')
       [] (Some (JObj [(''text'', JStr text)]))"

definition client_create_comment ::
  "world \<Rightarrow> client \<Rightarrow> string \<Rightarrow> string \<Rightarrow> string \<Rightarrow> string \<Rightarrow> json io" where
  "client_create_comment w c base_id record_id table_id_or_name text =
     send_request w (create_comment_request c base_id record_id table_id_or_name text)"

definition option_field_types :: "string list" where
  "option_field_types =
     [''singleSelect'', ''multipleSelects'', ''number'', ''date'', ''dateTime'', ''checkbox'',
      ''rating'', ''currency'', ''percent'', ''phoneNumber'', ''email'', ''url'',
      ''multilineText'', ''richText'', ''attachment'', ''barcode'', ''rollup'', ''lookup'',
      ''formula'', ''button'', ''autoNumber'', ''createdTime'', ''lastModifiedTime'',
      ''createdBy'', ''lastModifiedBy'']"

definition create_field_request ::
  "client \<Rightarrow> string \<Rightarrow> string \<Rightarrow> string \<Rightarrow> string \<Rightarrow> string \<Rightarrow> (string \<times> json) list \<Rightarrow> request" where
  "create_field_request c base_id table_id name field_type description options =
     mk_request c POST
       (base_url c @ ''/meta/bases/'' @ base_id @ ''/tables/'' @ table_id @ ''/fields'')
       []
       (Some (JObj ([(''name'', JStr name), (''type'', JStr field_type)]
          @ (if description \<noteq> [] then [(''description'', JStr description)] else [])
          @ (if options \<noteq> [] \<and> field_type \<in> set option_field_types
             then [(''options'', JObj options)] else []))))"

definition client_create_field ::
  "world \<Rightarrow> client \<Rightarrow> string \<Rightarrow> string \<Rightarrow> string \<Rightarrow> string \<Rightarrow> string \<Rightarrow> (string \<times> json) list \<Rightarrow> json io" where
  "client_create_field w c base_id table_id name field_type description options =
     send_request w (create_field_request c base_id table_id name field_type description options)"

definition create_multiple_records_request :: "client \<Rightarrow> string \<Rightarrow> string \<Rightarrow> json list \<Rightarrow> request" where
  "create_multiple_records_request c base_id table_id_or_name records =
     mk_request c POST (base_url c @ ''/'' @ base_id @ ''/'' @ table_id_or_name)
       [] (Some (JObj [(''records'', JArr records)]))"

definition client_create_multiple_records ::
  "world \<Rightarrow> client \<Rightarrow> string \<Rightarrow> string \<Rightarrow> json list \<Rightarrow> json io" where
  "client_create_multiple_records w c base_id table_id_or_name records =
     send_request w (create_multiple_records_request c base_id table_id_or_name records)"

definition create_record_request ::
  "client \<Rightarrow> string \<Rightarrow> string \<Rightarrow> (string \<times> json) list \<Rightarrow> request" where
  "create_record_request c base_id table_id_or_name fields_dict =
     mk_request c POST (base_url c @ ''/'' @ base_id @ ''/'' @ table_id_or_name)
       [] (Some (JObj [(''fields'', JObj fields_dict)]))"

definition client_create_record ::
  "world \<Rightarrow> client \<Rightarrow> string \<Rightarrow> string \<Rightarrow> (string \<times> json) list \<Rightarrow> json io" where
  "client_create_record w c base_id table_id_or_name fields_dict =
     send_request w (create_record_request c base_id table_id_or_name fields_dict)"

definition create_table_request ::
  "client \<Rightarrow> string \<Rightarrow> string \<Rightarrow> json list \<Rightarrow> string \<Rightarrow> request" where
  "create_table_request c base_id name fields_list description =
     mk_request c POST (base_url c @ ''/meta/bases/'' @ base_id @ ''/tables'')
       []
       (Some (JObj ([(''name'', JStr name), (''fields'', JArr fields_list)]
          @ (if description \<noteq> [] then [(''description'', JStr description)] else []))))"

definition client_create_table ::
  "world \<Rightarrow> client \<Rightarrow> string \<Rightarrow> string \<Rightarrow> json list \<Rightarrow> string \<Rightarrow> json io" where
  "client_create_table w c base_id name fields_list description =
     send_request w (create_table_request c base_id name fields_list description)"

definition get_base_schema_request :: "client \<Rightarrow> string \<Rightarrow> request" where
  "get_base_schema_request c base_id =
     mk_request c GET (base_url c @ ''/meta/bases/'' @ base_id @ ''/tables'') [] None"

definition client_get_base_schema :: "world \<Rightarrow> client \<Rightarrow> string \<Rightarrow> json io" where
  "client_get_base_schema w c base_id = send_request w (get_base_schema_request c base_id)"

definition get_record_request ::
  "client \<Rightarrow> string \<Rightarrow> string \<Rightarrow> string \<Rightarrow> string \<Rightarrow> bool \<Rightarrow> request" where
  "get_record_request c base_id table_id_or_name record_id cell_fmt return_by_id =
     mk_request c GET (base_url c @ ''/'' @ base_id @ ''/'' @ table_id_or_name @ ''/'' @ record_id)
       ((if cell_fmt \<noteq> ''json'' then [(''cellFormat'', JStr cell_fmt)] else [])
        @ (if return_by_id then [(''returnFieldsByFieldId'', JStr ''true'')] else []))
       None"

definition client_get_record ::
  "world \<Rightarrow> client \<Rightarrow> string \<Rightarrow> string \<Rightarrow> string \<Rightarrow> string \<Rightarrow> bool \<Rightarrow> json io" where
  "client_get_record w c base_id table_id_or_name record_id cell_fmt return_by_id =
     send_request w
       (get_record_request c base_id table_id_or_name record_id cell_fmt return_by_id)"

definition get_user_info_request :: "client \<Rightarrow> request" where
  "get_user_info_request c = mk_request c GET (base_url c @ ''/meta/whoami'') [] None"

definition client_get_user_info :: "world \<Rightarrow> client \<Rightarrow> json io" where
  "client_get_user_info w c = send_request w (get_user_info_request c)"

definition list_bases_request :: "client \<Rightarrow> request" where
  "list_bases_request c = mk_request c GET (base_url c @ ''/meta/bases'') [] None"

definition client_list_bases :: "world \<Rightarrow> client \<Rightarrow> json io" where
  "client_list_bases w c = send_request w (list_bases_request c)"

definition list_comments_request :: "client \<Rightarrow> string \<Rightarrow> string \<Rightarrow> string \<Rightarrow> request" where
  "list_comments_request c base_id table_id_or_name record_id =
     mk_request c GET
       (base_url c @ ''/'' @ base_id @ ''/'' @ table_id_or_name @ ''/'' @ record_id @ ''/comments'')
       [] None"

definition client_list_comments :: "world \<Rightarrow> client \<Rightarrow> string \<Rightarrow> string \<Rightarrow> string \<Rightarrow> json io" where
  "client_list_comments w c base_id table_id_or_name record_id =
     send_request w (list_comments_request c base_id table_id_or_name record_id)"

definition delete_comment_request ::
  "client \<Rightarrow> string \<Rightarrow> string \<Rightarrow> string \<Rightarrow> string \<Rightarrow> request" where
  "delete_comment_request c base_id table_id_or_name record_id row_comment_id =
     mk_request c DELETE
       (base_url c @ ''/'' @ base_id @ ''/'' @ table_id_or_name @ ''/'' @ record_id
          @ ''/comments/'' @ row_comment_id)
       [] None"

definition client_delete_comment ::
  "world \<Rightarrow> client \<Rightarrow> string \<Rightarrow> string \<Rightarrow> string \<Rightarrow> string \<Rightarrow> json io" where
  "client_delete_comment w c base_id table_id_or_name record_id row_comment_id =
     send_request w (delete_comment_request c base_id table_id_or_name record_id row_comment_id)"

definition delete_record_request :: "client \<Rightarrow> string \<Rightarrow> string \<Rightarrow> string \<Rightarrow> request" where
  "delete_record_request c base_id table_id_or_name record_id =
     mk_request c DELETE
       (base_url c @ ''/'' @ base_id @ ''/'' @ table_id_or_name @ ''/'' @ record_id) [] None"

definition client_delete_record :: "world \<Rightarrow> client \<Rightarrow> string \<Rightarrow> string \<Rightarrow> string \<Rightarrow> json io" where
  "client_delete_record w c base_id table_id_or_name record_id =
     send_request w (delete_record_request c base_id table_id_or_name record_id)"

text \<open>
  Bulk deletion puts every identifier into the query string as \<^verbatim>\<open>records[]=<id>\<close>, joined
  by \<^verbatim>\<open>&\<close>; the f-string applies \<^verbatim>\<open>str()\<close> to each entry.
\<close>

definition delete_multiple_records_request ::
  "world \<Rightarrow> client \<Rightarrow> string \<Rightarrow> string \<Rightarrow> json list \<Rightarrow> request" where
  "delete_multiple_records_request w c base_id table_id_or_name record_ids =
     (let params = map (\<lambda>record_id. ''records[]='' @ format_value w record_id) record_ids;
          query_string = join ''&'' params;
          url = base_url c @ ''/'' @ base_id @ ''/'' @ table_id_or_name
      in mk_request c DELETE
           (if query_string \<noteq> [] then url @ ''?'' @ query_string else url) [] None)"

definition client_delete_multiple_records ::
  "world \<Rightarrow> client \<Rightarrow> string \<Rightarrow> string \<Rightarrow> json list \<Rightarrow> json io" where
  "client_delete_multiple_records w c base_id table_id_or_name record_ids =
     send_request w (delete_multiple_records_request w c base_id table_id_or_name record_ids)"

definition update_record_request ::
  "client \<Rightarrow> string \<Rightarrow> string \<Rightarrow> string \<Rightarrow> (string \<times> json) list \<Rightarrow> bool \<Rightarrow> request" where
  "update_record_request c base_id table_id_or_name record_id fields_dict return_by_id =
     mk_request c PATCH (base_url c @ ''/'' @ base_id @ ''/'' @ table_id_or_name @ ''/'' @ record_id)
       (if return_by_id then [(''returnFieldsByFieldId'', JStr ''true'')] else [])
       (Some (JObj [(''fields'', JObj fields_dict)]))"

definition client_update_record ::
  "world \<Rightarrow> client \<Rightarrow> string \<Rightarrow> string \<Rightarrow> string \<Rightarrow> (string \<times> json) list \<Rightarrow> bool \<Rightarrow> json io" where
  "client_update_record w c base_id table_id_or_name record_id fields_dict return_by_id =
     send_request w
       (update_record_request c base_id table_id_or_name record_id fields_dict return_by_id)"

definition update_multiple_records_request ::
  "client \<Rightarrow> string \<Rightarrow> string \<Rightarrow> json list \<Rightarrow> request" where
  "update_multiple_records_request c base_id table_id_or_name records =
     mk_request c PATCH (base_url c @ ''/'' @ base_id @ ''/'' @ table_id_or_name)
       [] (Some (JObj [(''records'', JArr records)]))"

definition client_update_multiple_records ::
  "world \<Rightarrow> client \<Rightarrow> string \<Rightarrow> string \<Rightarrow> json list \<Rightarrow> json io" where
  "client_update_multiple_records w c base_id table_id_or_name records =
     send_request w (update_multiple_records_request c base_id table_id_or_name records)"

text \<open>The optional arguments of \<^verbatim>\<open>list_records\<close>, in the order of its signature.\<close>

record list_options =
  opt_cell_format :: string
  opt_fields :: "json list"
  opt_filter_by_formula :: string
  opt_max_records :: int
  opt_offset :: string
  opt_page_size :: int
  opt_record_metadata :: "json list"
  opt_return_fields_by_field_id :: bool
  opt_sort :: "json list"
  opt_time_zone :: string
  opt_user_locale :: string
  opt_view :: string

definition list_records_request :: "client \<Rightarrow> string \<Rightarrow> string \<Rightarrow> list_options \<Rightarrow> request" where
  "list_records_request c base_id table_id_or_name opts =
     mk_request c GET (base_url c @ ''/'' @ base_id @ ''/'' @ table_id_or_name)
       ((if opt_cell_format opts \<noteq> ''json'' then [(''cellFormat'', JStr (opt_cell_format opts))] else [])
        @ (if opt_fields opts \<noteq> [] then [(''fields[]'', JArr (opt_fields opts))] else [])
        @ (if opt_filter_by_formula opts \<noteq> []
           then [(''filterByFormula'', JStr (opt_filter_by_formula opts))] else [])
        @ (if opt_max_records opts \<noteq> 0 \<and> opt_max_records opts > 0
           then [(''maxRecords'', JInt (opt_max_records opts))] else [])
        @ (if opt_offset opts \<noteq> [] then [(''offset'', JStr (opt_offset opts))] else [])
        @ (if opt_page_size opts \<noteq> 100 then [(''pageSize'', JInt (opt_page_size opts))] else [])
        @ (if opt_record_metadata opts \<noteq> []
           then [(''recordMetadata[]'', JArr (opt_record_metadata opts))] else [])
        @ (if opt_return_fields_by_field_id opts
           then [(''returnFieldsByFieldId'', JStr ''true'')] else [])
        @ (if opt_sort opts \<noteq> [] then [(''sort[]'', JArr (opt_sort opts))] else [])
        @ (if opt_time_zone opts \<noteq> ''utc'' then [(''timeZone'', JStr (opt_time_zone opts))] else [])
        @ (if opt_user_locale opts \<noteq> [] then [(''userLocale'', JStr (opt_user_locale opts))] else [])
        @ (if opt_view opts \<noteq> [] then [(''view'', JStr (opt_view opts))] else []))
       None"

definition client_list_records ::
  "world \<Rightarrow> client \<Rightarrow> string \<Rightarrow> string \<Rightarrow> list_options \<Rightarrow> json io" where
  "client_list_records w c base_id table_id_or_name opts =
     send_request w (list_records_request c base_id table_id_or_name opts)"

section \<open>The tool layer\<close>

definition failure :: "string \<Rightarrow> envelope" where
  "failure msg = \<lparr>data = [], error = msg, successful = False\<rparr>"

definition is_Exception :: "exn \<Rightarrow> bool" where
  "is_Exception e = (case e of PyBaseException cls msg \<Rightarrow> False | _ \<Rightarrow> True)"

text \<open>
  The handler \<^verbatim>\<open>except Exception as e\<close> that closes every tool: an exception derived
  from \<^verbatim>\<open>Exception\<close> becomes an envelope, any other one leaves the tool.
\<close>

definition except_Exception :: "world \<Rightarrow> envelope io \<Rightarrow> envelope io" where
  "except_Exception w body = (\<lambda>s.
     case body s of
       (Inr env, s') \<Rightarrow> (Inr env, s')
     | (Inl e, s') \<Rightarrow>
         if is_Exception e then (Inr (failure (''Unexpected error: '' @ py_str w e)), s')
         else (Inl e, s'))"

text \<open>\<^verbatim>\<open>x.strip() if x else ""\<close>.\<close>

definition strip_if :: "string \<Rightarrow> string" where
  "strip_if x = (if x \<noteq> [] then strip x else [])"

subsection \<open>airtable\_create\_base\<close>

text \<open>The handler \<^verbatim>\<open>except AirtableAPIError as e\<close> of \<^verbatim>\<open>airtable_create_base\<close>.\<close>

definition create_base_api_error :: "world \<Rightarrow> json \<Rightarrow> json \<Rightarrow> envelope" where
  "create_base_api_error w error_type message =
     (let prefix = ''Airtable API Error: '' @ format_value w error_type @ [CHR 0x0A, CHR 0x0A] in
      if error_type = JStr ''AUTHENTICATION_REQUIRED'' then
        failure (prefix @ ''Authentication failed. Please check your AIRTABLE_API_KEY.'')
      else if error_type = JStr ''INVALID_API_KEY'' then
        failure (prefix @ ''Invalid API key. Please check your AIRTABLE_API_KEY.'')
      else if error_type = JStr ''INSUFFICIENT_PERMISSIONS'' then
        failure (prefix @ ''Insufficient permissions to create bases. Check your API key permissions.'')
      else if error_type = JStr ''WORKSPACE_NOT_FOUND'' then
        failure (prefix @ ''The specified workspace was not found or you don't have access to it.'')
      else if error_type = JStr ''timeout_error'' then
        failure (prefix @ ''Request timed out. The Airtable API is taking too long to respond. This might be due to high server load or network issues.'')
      else if error_type = JStr ''network_error'' then
        failure (prefix @ ''Network connectivity issue. Please check your internet connection.'')
      else
        failure (prefix @ ''Unexpected error: '' @ format_value w message))"

definition create_base_handlers :: "world \<Rightarrow> envelope io \<Rightarrow> envelope io" where
  "create_base_handlers w body = (\<lambda>s.
     case body s of
       (Inr env, s') \<Rightarrow> (Inr env, s')
     | (Inl e, s') \<Rightarrow>
         (case e of
            AirtableAPIError error_type message status_code \<Rightarrow>
              (Inr (create_base_api_error w error_type message), s')
          | _ \<Rightarrow>
              if is_Exception e then (Inr (failure (''Unexpected error: '' @ py_str w e)), s')
              else (Inl e, s')))"

text \<open>The loop over \<^verbatim>\<open>enumerate(tables_list)\<close>: the message of the first entry it rejects.\<close>

fun validate_tables :: "nat \<Rightarrow> json list \<Rightarrow> string option" where
  "validate_tables i [] = None"
| "validate_tables i (table # rest) =
     (if \<not> is_dict table \<or> \<not> has_key ''name'' table \<or> \<not> has_key ''fields'' table
      then Some (''Table at index '' @ str_nat i @ '' must have 'name' and 'fields' properties'')
      else validate_tables (Suc i) rest)"

definition create_base_message :: string where
  "create_base_message = ''Base configuration validated successfully. Note: Airtable API does not support programmatic base creation. This configuration can be used to manually create the base in the Airtable interface.''"

definition create_base_data ::
  "json \<Rightarrow> string \<Rightarrow> string \<Rightarrow> json list \<Rightarrow> exn + (string \<times> json) list" where
  "create_base_data response name workspace_id tables_list =
     bind_exn (py_get response ''base'' (JObj [])) (\<lambda>base_data.
     bind_exn (py_get base_data ''id'' (JStr [])) (\<lambda>base_id.
     bind_exn (py_get base_data ''name'' (JStr [])) (\<lambda>base_name.
     Inr [(''base'', base_data),
          (''base_id'', base_id),
          (''base_name'', base_name),
          (''workspace_id'', JStr workspace_id),
          (''tables_count'', JInt (int (length tables_list))),
          (''status'', JStr ''configuration_validated''),
          (''message'', JStr create_base_message),
          (''creation_details'', JObj
             [(''name'', JStr name),
              (''workspace_id'', JStr workspace_id),
              (''tables'', JArr tables_list),
              (''creation_successful'', JBool False),
              (''api_limitation'', JStr ''Airtable API does not support programmatic base creation''),
              (''manual_required'', JBool True)])])))"

definition airtable_create_base :: "world \<Rightarrow> string \<Rightarrow> string \<Rightarrow> string \<Rightarrow> envelope io" where
  "airtable_create_base w name tables workspace_id =
     create_base_handlers w
       (bind_io (get_airtable_client w) (\<lambda>client.
          if blank name then returns (failure ''Base name is required'')
          else if blank workspace_id then returns (failure ''Workspace ID is required'')
          else if blank tables then returns (failure ''Tables configuration is required'')
          else
            (case json_loads w tables of
               Loads_JSONDecodeError m \<Rightarrow>
                 returns (failure (''Invalid JSON format for tables parameter: '' @ m))
             | Loads_Raises e \<Rightarrow> raise e
             | Loads_Ok v \<Rightarrow>
                (case v of
                   JArr tables_list \<Rightarrow>
                     (case validate_tables 0 tables_list of
                        Some msg \<Rightarrow> returns (failure msg)
                      | None \<Rightarrow>
                          bind_io (client_create_base w client (strip name) tables_list
                                     (strip workspace_id)) (\<lambda>response.
                          bind_io (lift (create_base_data response name workspace_id tables_list))
                            (\<lambda>d. returns \<lparr>data = d, error = [], successful = False\<rparr>)))
                 | _ \<Rightarrow> returns (failure ''Tables must be an array of table objects'')))))"

subsection \<open>airtable\_create\_comment\<close>

definition create_comment_data ::
  "json \<Rightarrow> string \<Rightarrow> string \<Rightarrow> string \<Rightarrow> string \<Rightarrow> exn + (string \<times> json) list" where
  "create_comment_data comment_result base_id record_id table_id_or_name text =
     bind_exn (py_get comment_result ''comment'' (JObj [])) (\<lambda>comment.
     bind_exn (py_get comment_result ''comment_id'' (JStr [])) (\<lambda>comment_id.
     Inr [(''comment'', comment),
          (''comment_id'', comment_id),
          (''base_id'', JStr base_id),
          (''record_id'', JStr record_id),
          (''table_id_or_name'', JStr table_id_or_name),
          (''text'', JStr text),
          (''status'', JStr ''comment_created''),
          (''message'', JStr ''Comment created successfully'')]))"

definition airtable_create_comment ::
  "world \<Rightarrow> string \<Rightarrow> string \<Rightarrow> string \<Rightarrow> string \<Rightarrow> envelope io" where
  "airtable_create_comment w base_id record_id table_id_or_name text =
     except_Exception w
       (if blank base_id then returns (failure ''Base ID is required'')
        else if blank record_id then returns (failure ''Record ID is required'')
        else if blank table_id_or_name then returns (failure ''Table ID or name is required'')
        else if blank text then returns (failure ''Comment text is required'')
        else
          bind_io (get_airtable_client w) (\<lambda>client.
          bind_io (client_create_comment w client (strip base_id) (strip record_id)
                     (strip table_id_or_name) (strip text)) (\<lambda>comment_result.
          bind_io (lift (create_comment_data comment_result base_id record_id table_id_or_name text))
            (\<lambda>d. returns \<lparr>data = d, error = [], successful = True\<rparr>))))"

subsection \<open>airtable\_create\_field\<close>

text \<open>\<^verbatim>\<open>options or {}\<close> for an optional dict.\<close>

definition options_or_empty :: "(string \<times> json) list option \<Rightarrow> (string \<times> json) list" where
  "options_or_empty options = (case options of None \<Rightarrow> [] | Some d \<Rightarrow> d)"

definition create_field_data ::
  "json \<Rightarrow> string \<Rightarrow> string \<Rightarrow> string \<Rightarrow> string \<Rightarrow> string \<Rightarrow> (string \<times> json) list option
     \<Rightarrow> exn + (string \<times> json) list" where
  "create_field_data field_result base_id table_id name type description options =
     bind_exn (py_get field_result ''field'' (JObj [])) (\<lambda>field.
     bind_exn (py_get field_result ''field_id'' (JStr [])) (\<lambda>field_id.
     Inr [(''field'', field),
          (''field_id'', field_id),
          (''base_id'', JStr base_id),
          (''table_id'', JStr table_id),
          (''name'', JStr name),
          (''type'', JStr type),
          (''description'', JStr description),
          (''options'', JObj (options_or_empty options)),
          (''status'', JStr ''field_created''),
          (''message'', JStr ''Field created successfully'')]))"

definition airtable_create_field ::
  "world \<Rightarrow> string \<Rightarrow> string \<Rightarrow> string \<Rightarrow> string \<Rightarrow> string \<Rightarrow> (string \<times> json) list option
     \<Rightarrow> envelope io" where
  "airtable_create_field w base_id table_id name type description options =
     except_Exception w
       (if blank base_id then returns (failure ''Base ID is required'')
        else if blank table_id then returns (failure ''Table ID is required'')
        else if blank name then returns (failure ''Field name is required'')
        else
          bind_io (get_airtable_client w) (\<lambda>client.
          bind_io (client_create_field w client (strip base_id) (strip table_id) (strip name)
                     (strip type) (strip_if description) (options_or_empty options))
            (\<lambda>field_result.
          bind_io (lift (create_field_data field_result base_id table_id name type description
                           options))
            (\<lambda>d. returns \<lparr>data = d, error = [], successful = True\<rparr>))))"

subsection \<open>airtable\_create\_multiple\_records\<close>

fun validate_new_records :: "nat \<Rightarrow> json list \<Rightarrow> string option" where
  "validate_new_records i [] = None"
| "validate_new_records i (record # rest) =
     (if \<not> is_dict record \<or> \<not> has_key ''fields'' record
      then Some (''Record at index '' @ str_nat i @ '' must have 'fields' property'')
      else validate_new_records (Suc i) rest)"

definition create_multiple_records_data ::
  "json \<Rightarrow> string \<Rightarrow> string \<Rightarrow> exn + (string \<times> json) list" where
  "create_multiple_records_data records_result base_id table_id_or_name =
     bind_exn (py_get records_result ''records'' (JArr [])) (\<lambda>records.
     bind_exn (bind_exn (py_get records_result ''records'' (JArr [])) py_len) (\<lambda>created_records.
     bind_exn (bind_exn (py_get records_result ''records'' (JArr [])) py_len) (\<lambda>n.
     Inr [(''records'', records),
          (''created_records'', JInt (int created_records)),
          (''base_id'', JStr base_id),
          (''table_id_or_name'', JStr table_id_or_name),
          (''status'', JStr ''records_created''),
          (''message'', JStr (''Successfully created '' @ str_nat n @ '' records''))])))"

definition airtable_create_multiple_records ::
  "world \<Rightarrow> string \<Rightarrow> string \<Rightarrow> string \<Rightarrow> envelope io" where
  "airtable_create_multiple_records w base_id table_id_or_name records =
     except_Exception w
       (if blank base_id then returns (failure ''Base ID is required'')
        else if blank table_id_or_name then returns (failure ''Table ID or name is required'')
        else if blank records then returns (failure ''Records data is required'')
        else
          (case json_loads w records of
             Loads_JSONDecodeError m \<Rightarrow>
               returns (failure (''Invalid JSON format for records parameter: '' @ m))
           | Loads_Raises e \<Rightarrow> raise e
           | Loads_Ok v \<Rightarrow>
              (case v of
                 JArr records_list \<Rightarrow>
                   (case validate_new_records 0 records_list of
                      Some msg \<Rightarrow> returns (failure msg)
                    | None \<Rightarrow>
                        bind_io (get_airtable_client w) (\<lambda>client.
                        bind_io (client_create_multiple_records w client (strip base_id)
                                   (strip table_id_or_name) records_list) (\<lambda>records_result.
                        bind_io (lift (create_multiple_records_data records_result base_id
                                         table_id_or_name))
                          (\<lambda>d. returns \<lparr>data = d, error = [], successful = True\<rparr>))))
               | _ \<Rightarrow> returns (failure ''Records must be an array of record objects''))))"

subsection \<open>airtable\_create\_record\<close>

definition create_record_data ::
  "json \<Rightarrow> string \<Rightarrow> string \<Rightarrow> (string \<times> json) list \<Rightarrow> exn + (string \<times> json) list" where
  "create_record_data record_result base_id table_id_or_name fields_dict =
     bind_exn (py_get record_result ''record'' (JObj [])) (\<lambda>record.
     bind_exn (bind_exn (py_get record_result ''record'' (JObj []))
                 (\<lambda>r. py_get r ''id'' (JStr []))) (\<lambda>record_id.
     Inr [(''record'', record),
          (''record_id'', record_id),
          (''base_id'', JStr base_id),
          (''table_id_or_name'', JStr table_id_or_name),
          (''fields'', JObj fields_dict),
          (''status'', JStr ''record_created''),
          (''message'', JStr ''Record created successfully'')]))"

definition airtable_create_record ::
  "world \<Rightarrow> string \<Rightarrow> string \<Rightarrow> string \<Rightarrow> envelope io" where
  "airtable_create_record w base_id table_id_or_name fields_json =
     except_Exception w
       (if blank base_id then returns (failure ''Base ID is required'')
        else if blank table_id_or_name then returns (failure ''Table ID or name is required'')
        else if blank fields_json then returns (failure ''Fields data is required'')
        else
          (case json_loads w fields_json of
             Loads_JSONDecodeError m \<Rightarrow>
               returns (failure (''Invalid JSON format for fields parameter: '' @ m))
           | Loads_Raises e \<Rightarrow> raise e
           | Loads_Ok v \<Rightarrow>
              (case v of
                 JObj fields_dict \<Rightarrow>
                   bind_io (get_airtable_client w) (\<lambda>client.
                   bind_io (client_create_record w client (strip base_id)
                              (strip table_id_or_name) fields_dict) (\<lambda>record_result.
                   bind_io (lift (create_record_data record_result base_id table_id_or_name
                                    fields_dict))
                     (\<lambda>d. returns \<lparr>data = d, error = [], successful = True\<rparr>)))
               | _ \<Rightarrow> returns (failure ''Fields must be a JSON object''))))"

subsection \<open>airtable\_create\_table\<close>

fun validate_fields :: "nat \<Rightarrow> json list \<Rightarrow> string option" where
  "validate_fields i [] = None"
| "validate_fields i (field # rest) =
     (if \<not> is_dict field \<or> \<not> has_key ''name'' field \<or> \<not> has_key ''type'' field
      then Some (''Field at index '' @ str_nat i @ '' must have 'name' and 'type' properties'')
      else validate_fields (Suc i) rest)"

definition create_table_data ::
  "json \<Rightarrow> string \<Rightarrow> string \<Rightarrow> string \<Rightarrow> json list \<Rightarrow> exn + (string \<times> json) list" where
  "create_table_data table_result base_id name description fields_list =
     bind_exn (py_get table_result ''table'' (JObj [])) (\<lambda>table.
     bind_exn (bind_exn (py_get table_result ''table'' (JObj []))
                 (\<lambda>t. py_get t ''id'' (JStr []))) (\<lambda>table_id.
     Inr [(''table'', table),
          (''table_id'', table_id),
          (''base_id'', JStr base_id),
          (''name'', JStr name),
          (''description'', JStr description),
          (''fields_count'', JInt (int (length fields_list))),
          (''status'', JStr ''table_created''),
          (''message'', JStr ''Table created successfully'')]))"

definition airtable_create_table ::
  "world \<Rightarrow> string \<Rightarrow> string \<Rightarrow> string \<Rightarrow> string \<Rightarrow> envelope io" where
  "airtable_create_table w base_id name fields_json description =
     except_Exception w
       (if blank base_id then returns (failure ''Base ID is required'')
        else if blank name then returns (failure ''Table name is required'')
        else if blank fields_json then returns (failure ''Fields data is required'')
        else
          (case json_loads w fields_json of
             Loads_JSONDecodeError m \<Rightarrow>
               returns (failure (''Invalid JSON format for fields parameter: '' @ m))
           | Loads_Raises e \<Rightarrow> raise e
           | Loads_Ok v \<Rightarrow>
              (case v of
                 JArr fields_list \<Rightarrow>
                   (case validate_fields 0 fields_list of
                      Some msg \<Rightarrow> returns (failure msg)
                    | None \<Rightarrow>
                        bind_io (get_airtable_client w) (\<lambda>client.
                        bind_io (client_create_table w client (strip base_id) (strip name)
                                   fields_list (strip_if description)) (\<lambda>table_result.
                        bind_io (lift (create_table_data table_result base_id name description
                                         fields_list))
                          (\<lambda>d. returns \<lparr>data = d, error = [], successful = True\<rparr>))))
               | _ \<Rightarrow> returns (failure ''Fields must be an array of field objects''))))"

subsection \<open>airtable\_get\_base\_schema\<close>

definition get_base_schema_data :: "json \<Rightarrow> string \<Rightarrow> exn + (string \<times> json) list" where
  "get_base_schema_data schema_result base_id =
     bind_exn (py_get schema_result ''tables'' (JArr [])) (\<lambda>tables.
     bind_exn (bind_exn (py_get schema_result ''tables'' (JArr [])) py_len) (\<lambda>tables_count.
     Inr [(''schema'', schema_result),
          (''base_id'', JStr base_id),
          (''tables'', tables),
          (''tables_count'', JInt (int tables_count)),
          (''status'', JStr ''schema_retrieved''),
          (''message'', JStr ''Base schema retrieved successfully'')]))"

definition airtable_get_base_schema :: "world \<Rightarrow> string \<Rightarrow> envelope io" where
  "airtable_get_base_schema w base_id =
     except_Exception w
       (if blank base_id then returns (failure ''Base ID is required'')
        else
          bind_io (get_airtable_client w) (\<lambda>client.
          bind_io (client_get_base_schema w client (strip base_id)) (\<lambda>schema_result.
          bind_io (lift (get_base_schema_data schema_result base_id))
            (\<lambda>d. returns \<lparr>data = d, error = [], successful = True\<rparr>))))"

subsection \<open>airtable\_get\_record\<close>

definition get_record_data ::
  "json \<Rightarrow> string \<Rightarrow> string \<Rightarrow> string \<Rightarrow> string \<Rightarrow> bool \<Rightarrow> exn + (string \<times> json) list" where
  "get_record_data record_result base_id table_id_or_name record_id cell_fmt return_by_id =
     bind_exn (py_get record_result ''record'' (JObj [])) (\<lambda>record.
     Inr [(''record'', record),
          (''base_id'', JStr base_id),
          (''table_id_or_name'', JStr table_id_or_name),
          (''record_id'', JStr record_id),
          (''cell_format'', JStr cell_fmt),
          (''return_fields_by_field_id'', JBool return_by_id),
          (''status'', JStr ''record_retrieved''),
          (''message'', JStr ''Record retrieved successfully'')])"

definition airtable_get_record ::
  "world \<Rightarrow> string \<Rightarrow> string \<Rightarrow> string \<Rightarrow> string \<Rightarrow> bool \<Rightarrow> envelope io" where
  "airtable_get_record w base_id table_id_or_name record_id cell_fmt return_by_id =
     except_Exception w
       (if blank base_id then returns (failure ''Base ID is required'')
        else if blank table_id_or_name then returns (failure ''Table ID or name is required'')
        else if blank record_id then returns (failure ''Record ID is required'')
        else
          bind_io (get_airtable_client w) (\<lambda>client.
          bind_io (client_get_record w client (strip base_id) (strip table_id_or_name)
                     (strip record_id) (strip cell_fmt) return_by_id) (\<lambda>record_result.
          bind_io (lift (get_record_data record_result base_id table_id_or_name record_id
                           cell_fmt return_by_id))
            (\<lambda>d. returns \<lparr>data = d, error = [], successful = True\<rparr>))))"

subsection \<open>airtable\_get\_user\_info\<close>

definition get_user_info_data :: "json \<Rightarrow> exn + (string \<times> json) list" where
  "get_user_info_data user_info =
     bind_exn (py_get user_info ''id'' (JStr [])) (\<lambda>user_id.
     bind_exn (py_get user_info ''scopes'' (JArr [])) (\<lambda>scopes.
     Inr [(''user'', user_info),
          (''user_id'', user_id),
          (''scopes'', scopes),
          (''status'', JStr ''user_info_retrieved''),
          (''message'', JStr ''User information retrieved successfully'')]))"

definition airtable_get_user_info :: "world \<Rightarrow> envelope io" where
  "airtable_get_user_info w =
     except_Exception w
       (bind_io (get_airtable_client w) (\<lambda>client.
        bind_io (client_get_user_info w client) (\<lambda>user_info.
        bind_io (lift (get_user_info_data user_info))
          (\<lambda>d. returns \<lparr>data = d, error = [], successful = True\<rparr>))))"

subsection \<open>airtable\_list\_bases\<close>

definition list_bases_data :: "json \<Rightarrow> exn + (string \<times> json) list" where
  "list_bases_data bases_result =
     bind_exn (py_get bases_result ''bases'' (JArr [])) (\<lambda>bases.
     bind_exn (bind_exn (py_get bases_result ''bases'' (JArr [])) py_len) (\<lambda>bases_count.
     bind_exn (py_get bases_result ''offset'' (JStr [])) (\<lambda>offset.
     Inr [(''bases'', bases),
          (''bases_count'', JInt (int bases_count)),
          (''offset'', offset),
          (''status'', JStr ''bases_retrieved''),
          (''message'', JStr ''Bases retrieved successfully'')])))"

definition airtable_list_bases :: "world \<Rightarrow> envelope io" where
  "airtable_list_bases w =
     except_Exception w
       (bind_io (get_airtable_client w) (\<lambda>client.
        bind_io (client_list_bases w client) (\<lambda>bases_result.
        bind_io (lift (list_bases_data bases_result))
          (\<lambda>d. returns \<lparr>data = d, error = [], successful = True\<rparr>))))"

subsection \<open>airtable\_list\_comments\<close>

definition list_comments_data ::
  "json \<Rightarrow> string \<Rightarrow> string \<Rightarrow> string \<Rightarrow> exn + (string \<times> json) list" where
  "list_comments_data comments_result base_id table_id_or_name record_id =
     bind_exn (py_get comments_result ''comments'' (JArr [])) (\<lambda>comments.
     bind_exn (bind_exn (py_get comments_result ''comments'' (JArr [])) py_len)
       (\<lambda>comments_count.
     Inr [(''comments'', comments),
          (''comments_count'', JInt (int comments_count)),
          (''base_id'', JStr base_id),
          (''table_id_or_name'', JStr table_id_or_name),
          (''record_id'', JStr record_id),
          (''status'', JStr ''comments_retrieved''),
          (''message'', JStr ''Comments retrieved successfully'')]))"

definition airtable_list_comments ::
  "world \<Rightarrow> string \<Rightarrow> string \<Rightarrow> string \<Rightarrow> envelope io" where
  "airtable_list_comments w base_id table_id_or_name record_id =
     except_Exception w
       (if blank base_id then returns (failure ''Base ID is required'')
        else if blank table_id_or_name then returns (failure ''Table ID or name is required'')
        else if blank record_id then returns (failure ''Record ID is required'')
        else
          bind_io (get_airtable_client w) (\<lambda>client.
          bind_io (client_list_comments w client (strip base_id) (strip table_id_or_name)
                     (strip record_id)) (\<lambda>comments_result.
          bind_io (lift (list_comments_data comments_result base_id table_id_or_name record_id))
            (\<lambda>d. returns \<lparr>data = d, error = [], successful = True\<rparr>))))"

subsection \<open>airtable\_delete\_record\<close>

definition delete_record_data ::
  "json \<Rightarrow> string \<Rightarrow> string \<Rightarrow> string \<Rightarrow> exn + (string \<times> json) list" where
  "delete_record_data delete_result base_id table_id_or_name record_id =
     bind_exn (py_get delete_result ''record'' (JObj [])) (\<lambda>deleted_record.
     Inr [(''deleted_record'', deleted_record),
          (''record_id'', JStr record_id),
          (''base_id'', JStr base_id),
          (''table_id_or_name'', JStr table_id_or_name),
          (''status'', JStr ''record_deleted''),
          (''message'', JStr ''Record deleted successfully'')])"

definition airtable_delete_record ::
  "world \<Rightarrow> string \<Rightarrow> string \<Rightarrow> string \<Rightarrow> envelope io" where
  "airtable_delete_record w base_id table_id_or_name record_id =
     except_Exception w
       (if blank base_id then returns (failure ''Base ID is required'')
        else if blank table_id_or_name then returns (failure ''Table ID or name is required'')
        else if blank record_id then returns (failure ''Record ID is required'')
        else
          bind_io (get_airtable_client w) (\<lambda>client.
          bind_io (client_delete_record w client (strip base_id) (strip table_id_or_name)
                     (strip record_id)) (\<lambda>delete_result.
          bind_io (lift (delete_record_data delete_result base_id table_id_or_name record_id))
            (\<lambda>d. returns \<lparr>data = d, error = [], successful = True\<rparr>))))"

subsection \<open>airtable\_delete\_multiple\_records\<close>

text \<open>
  The loop over \<^verbatim>\<open>enumerate(record_ids_list)\<close>, with the test
  \<^verbatim>\<open>not isinstance(record_id, str) or not record_id.strip()\<close>.
\<close>

fun validate_record_ids :: "nat \<Rightarrow> json list \<Rightarrow> string option" where
  "validate_record_ids i [] = None"
| "validate_record_ids i (record_id # rest) =
     (if (case record_id of JStr t \<Rightarrow> strip t = [] | _ \<Rightarrow> True)
      then Some (''Record ID at index '' @ str_nat i @ '' must be a non-empty string'')
      else validate_record_ids (Suc i) rest)"

definition delete_multiple_records_data ::
  "json \<Rightarrow> string \<Rightarrow> string \<Rightarrow> json list \<Rightarrow> exn + (string \<times> json) list" where
  "delete_multiple_records_data delete_result base_id table_id_or_name record_ids_list =
     bind_exn (py_get delete_result ''records'' (JArr [])) (\<lambda>deleted_records.
     bind_exn (bind_exn (py_get delete_result ''records'' (JArr [])) py_len) (\<lambda>deleted_count.
     bind_exn (bind_exn (py_get delete_result ''records'' (JArr [])) py_len) (\<lambda>n.
     Inr [(''deleted_records'', deleted_records),
          (''deleted_count'', JInt (int deleted_count)),
          (''requested_count'', JInt (int (length record_ids_list))),
          (''base_id'', JStr base_id),
          (''table_id_or_name'', JStr table_id_or_name),
          (''record_ids'', JArr record_ids_list),
          (''status'', JStr ''records_deleted''),
          (''message'', JStr (''Successfully deleted '' @ str_nat n @ '' records''))])))"

definition airtable_delete_multiple_records ::
  "world \<Rightarrow> string \<Rightarrow> string \<Rightarrow> string \<Rightarrow> envelope io" where
  "airtable_delete_multiple_records w base_id table_id_or_name record_ids =
     except_Exception w
       (if blank base_id then returns (failure ''Base ID is required'')
        else if blank table_id_or_name then returns (failure ''Table ID or name is required'')
        else if blank record_ids then returns (failure ''Record IDs are required'')
        else
          (case json_loads w record_ids of
             Loads_JSONDecodeError m \<Rightarrow>
               returns (failure (''Invalid JSON format for record_ids parameter: '' @ m))
           | Loads_Raises e \<Rightarrow> raise e
           | Loads_Ok v \<Rightarrow>
              (case v of
                 JArr record_ids_list \<Rightarrow>
                   if length record_ids_list = 0 then
                     returns (failure ''At least one record ID is required'')
                   else if length record_ids_list > 10 then
                     returns (failure ''Maximum 10 records can be deleted at once'')
                   else
                     (case validate_record_ids 0 record_ids_list of
                        Some msg \<Rightarrow> returns (failure msg)
                      | None \<Rightarrow>
                          bind_io (get_airtable_client w) (\<lambda>client.
                          bind_io (client_delete_multiple_records w client (strip base_id)
                                     (strip table_id_or_name) record_ids_list) (\<lambda>delete_result.
                          bind_io (lift (delete_multiple_records_data delete_result base_id
                                           table_id_or_name record_ids_list))
                            (\<lambda>d. returns \<lparr>data = d, error = [], successful = True\<rparr>))))
               | _ \<Rightarrow> returns (failure ''Record IDs must be an array of record ID strings''))))"

subsection \<open>airtable\_delete\_comment\<close>

definition delete_comment_data ::
  "json \<Rightarrow> string \<Rightarrow> string \<Rightarrow> string \<Rightarrow> string \<Rightarrow> (string \<times> json) list" where
  "delete_comment_data delete_result base_id table_id_or_name record_id row_comment_id =
     [(''comment_deleted'', delete_result),
      (''base_id'', JStr base_id),
      (''table_id_or_name'', JStr table_id_or_name),
      (''record_id'', JStr record_id),
      (''row_comment_id'', JStr row_comment_id),
      (''status'', JStr ''comment_deleted''),
      (''message'', JStr ''Comment deleted successfully'')]"

definition airtable_delete_comment ::
  "world \<Rightarrow> string \<Rightarrow> string \<Rightarrow> string \<Rightarrow> string \<Rightarrow> envelope io" where
  "airtable_delete_comment w base_id table_id_or_name record_id row_comment_id =
     except_Exception w
       (if blank base_id then returns (failure ''Base ID is required'')
        else if blank table_id_or_name then returns (failure ''Table ID or name is required'')
        else if blank record_id then returns (failure ''Record ID is required'')
        else if blank row_comment_id then returns (failure ''Row comment ID is required'')
        else
          bind_io (get_airtable_client w) (\<lambda>client.
          bind_io (client_delete_comment w client (strip base_id) (strip table_id_or_name)
                     (strip record_id) (strip row_comment_id)) (\<lambda>delete_result.
          returns \<lparr>data = delete_comment_data delete_result base_id table_id_or_name record_id
                            row_comment_id,
                   error = [], successful = True\<rparr>)))"

subsection \<open>airtable\_update\_record\<close>

definition update_record_data ::
  "json \<Rightarrow> string \<Rightarrow> string \<Rightarrow> string \<Rightarrow> (string \<times> json) list \<Rightarrow> bool
     \<Rightarrow> exn + (string \<times> json) list" where
  "update_record_data record_result base_id table_id_or_name record_id fields_dict return_by_id =
     bind_exn (py_get record_result ''record'' (JObj [])) (\<lambda>record.
     Inr [(''record'', record),
          (''record_id'', JStr record_id),
          (''base_id'', JStr base_id),
          (''table_id_or_name'', JStr table_id_or_name),
          (''fields'', JObj fields_dict),
          (''return_fields_by_field_id'', JBool return_by_id),
          (''status'', JStr ''record_updated''),
          (''message'', JStr ''Record updated successfully'')])"

definition airtable_update_record ::
  "world \<Rightarrow> string \<Rightarrow> string \<Rightarrow> string \<Rightarrow> string \<Rightarrow> bool \<Rightarrow> envelope io" where
  "airtable_update_record w base_id table_id_or_name record_id fields_json return_by_id =
     except_Exception w
       (if blank base_id then returns (failure ''Base ID is required'')
        else if blank table_id_or_name then returns (failure ''Table ID or name is required'')
        else if blank record_id then returns (failure ''Record ID is required'')
        else if blank fields_json then returns (failure ''Fields data is required'')
        else
          (case json_loads w fields_json of
             Loads_JSONDecodeError m \<Rightarrow>
               returns (failure (''Invalid JSON format for fields parameter: '' @ m))
           | Loads_Raises e \<Rightarrow> raise e
           | Loads_Ok v \<Rightarrow>
              (case v of
                 JObj fields_dict \<Rightarrow>
                   bind_io (get_airtable_client w) (\<lambda>client.
                   bind_io (client_update_record w client (strip base_id)
                              (strip table_id_or_name) (strip record_id) fields_dict
                              return_by_id) (\<lambda>record_result.
                   bind_io (lift (update_record_data record_result base_id table_id_or_name
                                    record_id fields_dict return_by_id))
                     (\<lambda>d. returns \<lparr>data = d, error = [], successful = True\<rparr>)))
               | _ \<Rightarrow> returns (failure ''Fields must be a JSON object''))))"

subsection \<open>airtable\_update\_multiple\_records\<close>

fun validate_updated_records :: "nat \<Rightarrow> json list \<Rightarrow> string option" where
  "validate_updated_records i [] = None"
| "validate_updated_records i (record # rest) =
     (if \<not> is_dict record
      then Some (''Record at index '' @ str_nat i @ '' must be an object'')
      else if \<not> has_key ''id'' record
      then Some (''Record at index '' @ str_nat i @ '' must have an 'id' field'')
      else if \<not> has_key ''fields'' record
      then Some (''Record at index '' @ str_nat i @ '' must have a 'fields' object'')
      else validate_updated_records (Suc i) rest)"

definition update_multiple_records_data ::
  "json \<Rightarrow> string \<Rightarrow> string \<Rightarrow> exn + (string \<times> json) list" where
  "update_multiple_records_data records_result base_id table_id_or_name =
     bind_exn (py_get records_result ''records'' (JArr [])) (\<lambda>records.
     bind_exn (bind_exn (py_get records_result ''records'' (JArr [])) py_len) (\<lambda>updated_records.
     bind_exn (bind_exn (py_get records_result ''records'' (JArr [])) py_len) (\<lambda>n.
     Inr [(''records'', records),
          (''updated_records'', JInt (int updated_records)),
          (''base_id'', JStr base_id),
          (''table_id_or_name'', JStr table_id_or_name),
          (''status'', JStr ''records_updated''),
          (''message'', JStr (''Successfully updated '' @ str_nat n @ '' records''))])))"

definition airtable_update_multiple_records ::
  "world \<Rightarrow> string \<Rightarrow> string \<Rightarrow> string \<Rightarrow> envelope io" where
  "airtable_update_multiple_records w base_id table_id_or_name records =
     except_Exception w
       (if blank base_id then returns (failure ''Base ID is required'')
        else if blank table_id_or_name then returns (failure ''Table ID or name is required'')
        else if blank records then returns (failure ''Records data is required'')
        else
          (case json_loads w records of
             Loads_JSONDecodeError m \<Rightarrow>
               returns (failure (''Invalid JSON format for records parameter: '' @ m))
           | Loads_Raises e \<Rightarrow> raise e
           | Loads_Ok v \<Rightarrow>
              (case v of
                 JArr records_list \<Rightarrow>
                   (case validate_updated_records 0 records_list of
                      Some msg \<Rightarrow> returns (failure msg)
                    | None \<Rightarrow>
                        bind_io (get_airtable_client w) (\<lambda>client.
                        bind_io (client_update_multiple_records w client (strip base_id)
                                   (strip table_id_or_name) records_list) (\<lambda>records_result.
                        bind_io (lift (update_multiple_records_data records_result base_id
                                         table_id_or_name))
                          (\<lambda>d. returns \<lparr>data = d, error = [], successful = True\<rparr>))))
               | _ \<Rightarrow> returns (failure ''Records must be an array of record objects''))))"

subsection \<open>airtable\_list\_records\<close>

text \<open>The twelve optional parameters of the tool as it receives them.\<close>

record list_args =
  arg_cell_format :: string
  arg_fields :: string
  arg_filter_by_formula :: string
  arg_max_records :: int
  arg_offset :: string
  arg_page_size :: int
  arg_record_metadata :: string
  arg_return_fields_by_field_id :: bool
  arg_sort :: string
  arg_time_zone :: string
  arg_user_locale :: string
  arg_view :: string

text \<open>
  The block that decodes one optional JSON parameter, written three times in the source
  (for \<^verbatim>\<open>fields\<close>, \<^verbatim>\<open>sort\<close> and \<^verbatim>\<open>record_metadata\<close>): a blank string leaves the list
  empty; \<open>k\<close> is the rest of the function.
\<close>

definition parse_optional_list ::
  "world \<Rightarrow> string \<Rightarrow> string \<Rightarrow> string \<Rightarrow> (json list \<Rightarrow> envelope io) \<Rightarrow> envelope io" where
  "parse_optional_list w raw invalid_prefix shape_msg k =
     (if raw \<noteq> [] \<and> strip raw \<noteq> [] then
        (case json_loads w raw of
           Loads_JSONDecodeError m \<Rightarrow> returns (failure (invalid_prefix @ m))
         | Loads_Raises e \<Rightarrow> raise e
         | Loads_Ok v \<Rightarrow> (case v of JArr xs \<Rightarrow> k xs | _ \<Rightarrow> returns (failure shape_msg)))
      else k [])"

definition list_records_data ::
  "json \<Rightarrow> string \<Rightarrow> string \<Rightarrow> int \<Rightarrow> exn + (string \<times> json) list" where
  "list_records_data records_result base_id table_id_or_name page_size =
     bind_exn (py_get records_result ''records'' (JArr [])) (\<lambda>records.
     bind_exn (bind_exn (py_get records_result ''records'' (JArr [])) py_len) (\<lambda>records_count.
     bind_exn (py_get records_result ''offset'' (JStr [])) (\<lambda>offset.
     Inr [(''records'', records),
          (''records_count'', JInt (int records_count)),
          (''offset'', offset),
          (''base_id'', JStr base_id),
          (''table_id_or_name'', JStr table_id_or_name),
          (''page_size'', JInt page_size),
          (''status'', JStr ''records_retrieved''),
          (''message'', JStr ''Records retrieved successfully'')])))"

definition airtable_list_records ::
  "world \<Rightarrow> string \<Rightarrow> string \<Rightarrow> list_args \<Rightarrow> envelope io" where
  "airtable_list_records w base_id table_id_or_name args =
     except_Exception w
       (if blank base_id then returns (failure ''Base ID is required'')
        else if blank table_id_or_name then returns (failure ''Table ID or name is required'')
        else
          bind_io (get_airtable_client w) (\<lambda>client.
          parse_optional_list w (arg_fields args)
            ''Invalid JSON format for fields parameter: '' ''Fields must be a JSON array''
            (\<lambda>fields_list.
          parse_optional_list w (arg_sort args)
            ''Invalid JSON format for sort parameter: '' ''Sort must be a JSON array''
            (\<lambda>sort_list.
          parse_optional_list w (arg_record_metadata args)
            ''Invalid JSON format for record_metadata parameter: ''
            ''Record metadata must be a JSON array''
            (\<lambda>record_metadata_list.
          bind_io (client_list_records w client (strip base_id) (strip table_id_or_name)
                     \<lparr>opt_cell_format = strip (arg_cell_format args),
                      opt_fields = fields_list,
                      opt_filter_by_formula = strip_if (arg_filter_by_formula args),
                      opt_max_records = arg_max_records args,
                      opt_offset = strip_if (arg_offset args),
                      opt_page_size = arg_page_size args,
                      opt_record_metadata = record_metadata_list,
                      opt_return_fields_by_field_id = arg_return_fields_by_field_id args,
                      opt_sort = sort_list,
                      opt_time_zone = strip (arg_time_zone args),
                      opt_user_locale = strip_if (arg_user_locale args),
                      opt_view = strip_if (arg_view args)\<rparr>) (\<lambda>records_result.
          bind_io (lift (list_records_data records_result base_id table_id_or_name
                           (arg_page_size args)))
            (\<lambda>d. returns \<lparr>data = d, error = [], successful = True\<rparr>)))))))"

section \<open>The tool surface\<close>

text \<open>One constructor for each of the seventeen entry points, with its parameters.\<close>

datatype tool_call =
    Create_base string string string
  | Create_comment string string string string
  | Create_field string string string string string "(string \<times> json) list option"
  | Create_multiple_records string string string
  | Create_record string string string
  | Create_table string string string string
  | Get_base_schema string
  | Get_record string string string string bool
  | Get_user_info
  | List_bases
  | List_comments string string string
  | Delete_record string string string
  | Delete_multiple_records string string string
  | Delete_comment string string string string
  | Update_record string string string string bool
  | Update_multiple_records string string string
  | List_records string string list_args

fun run_tool :: "world \<Rightarrow> tool_call \<Rightarrow> envelope io" where
  "run_tool w (Create_base name tables workspace_id) =
     airtable_create_base w name tables workspace_id"
| "run_tool w (Create_comment base_id record_id table_id_or_name text) =
     airtable_create_comment w base_id record_id table_id_or_name text"
| "run_tool w (Create_field base_id table_id name type description options) =
     airtable_create_field w base_id table_id name type description options"
| "run_tool w (Create_multiple_records base_id table_id_or_name records) =
     airtable_create_multiple_records w base_id table_id_or_name records"
| "run_tool w (Create_record base_id table_id_or_name fields_json) =
     airtable_create_record w base_id table_id_or_name fields_json"
| "run_tool w (Create_table base_id name fields_json description) =
     airtable_create_table w base_id name fields_json description"
| "run_tool w (Get_base_schema base_id) = airtable_get_base_schema w base_id"
| "run_tool w (Get_record base_id table_id_or_name record_id cell_fmt return_by_id) =
     airtable_get_record w base_id table_id_or_name record_id cell_fmt return_by_id"
| "run_tool w Get_user_info = airtable_get_user_info w"
| "run_tool w List_bases = airtable_list_bases w"
| "run_tool w (List_comments base_id table_id_or_name record_id) =
     airtable_list_comments w base_id table_id_or_name record_id"
| "run_tool w (Delete_record base_id table_id_or_name record_id) =
     airtable_delete_record w base_id table_id_or_name record_id"
| "run_tool w (Delete_multiple_records base_id table_id_or_name record_ids) =
     airtable_delete_multiple_records w base_id table_id_or_name record_ids"
| "run_tool w (Delete_comment base_id table_id_or_name record_id row_comment_id) =
     airtable_delete_comment w base_id table_id_or_name record_id row_comment_id"
| "run_tool w (Update_record base_id table_id_or_name record_id fields_json return_by_id) =
     airtable_update_record w base_id table_id_or_name record_id fields_json return_by_id"
| "run_tool w (Update_multiple_records base_id table_id_or_name records) =
     airtable_update_multiple_records w base_id table_id_or_name records"
| "run_tool w (List_records base_id table_id_or_name args) =
     airtable_list_records w base_id table_id_or_name args"

section \<open>The client surface\<close>

text \<open>The sixteen methods of \<^verbatim>\<open>AirtableClient\<close> that issue a network call.\<close>

datatype client_call =
    Call_create_comment string string string string
  | Call_create_field string string string string string "(string \<times> json) list"
  | Call_create_multiple_records string string "json list"
  | Call_create_record string string "(string \<times> json) list"
  | Call_create_table string string "json list" string
  | Call_get_base_schema string
  | Call_get_record string string string string bool
  | Call_get_user_info
  | Call_list_bases
  | Call_list_comments string string string
  | Call_delete_comment string string string string
  | Call_delete_record string string string
  | Call_delete_multiple_records string string "json list"
  | Call_update_record string string string "(string \<times> json) list" bool
  | Call_update_multiple_records string string "json list"
  | Call_list_records string string list_options

fun client_run :: "world \<Rightarrow> client \<Rightarrow> client_call \<Rightarrow> json io" where
  "client_run w c (Call_create_comment a b t x) = client_create_comment w c a b t x"
| "client_run w c (Call_create_field a t n ty d opts) = client_create_field w c a t n ty d opts"
| "client_run w c (Call_create_multiple_records a t rs) = client_create_multiple_records w c a t rs"
| "client_run w c (Call_create_record a t fs) = client_create_record w c a t fs"
| "client_run w c (Call_create_table a n fs d) = client_create_table w c a n fs d"
| "client_run w c (Call_get_base_schema a) = client_get_base_schema w c a"
| "client_run w c (Call_get_record a t r cf rb) = client_get_record w c a t r cf rb"
| "client_run w c Call_get_user_info = client_get_user_info w c"
| "client_run w c Call_list_bases = client_list_bases w c"
| "client_run w c (Call_list_comments a t r) = client_list_comments w c a t r"
| "client_run w c (Call_delete_comment a t r rc) = client_delete_comment w c a t r rc"
| "client_run w c (Call_delete_record a t r) = client_delete_record w c a t r"
| "client_run w c (Call_delete_multiple_records a t ids) = client_delete_multiple_records w c a t ids"
| "client_run w c (Call_update_record a t r fs rb) = client_update_record w c a t r fs rb"
| "client_run w c (Call_update_multiple_records a t rs) = client_update_multiple_records w c a t rs"
| "client_run w c (Call_list_records a t opts) = client_list_records w c a t opts"

text \<open>The request each method hands to the HTTP library.\<close>

fun client_request :: "world \<Rightarrow> client \<Rightarrow> client_call \<Rightarrow> request" where
  "client_request w c (Call_create_comment a b t x) = create_comment_request c a b t x"
| "client_request w c (Call_create_field a t n ty d opts) = create_field_request c a t n ty d opts"
| "client_request w c (Call_create_multiple_records a t rs) = create_multiple_records_request c a t rs"
| "client_request w c (Call_create_record a t fs) = create_record_request c a t fs"
| "client_request w c (Call_create_table a n fs d) = create_table_request c a n fs d"
| "client_request w c (Call_get_base_schema a) = get_base_schema_request c a"
| "client_request w c (Call_get_record a t r cf rb) = get_record_request c a t r cf rb"
| "client_request w c Call_get_user_info = get_user_info_request c"
| "client_request w c Call_list_bases = list_bases_request c"
| "client_request w c (Call_list_comments a t r) = list_comments_request c a t r"
| "client_request w c (Call_delete_comment a t r rc) = delete_comment_request c a t r rc"
| "client_request w c (Call_delete_record a t r) = delete_record_request c a t r"
| "client_request w c (Call_delete_multiple_records a t ids) =
     delete_multiple_records_request w c a t ids"
| "client_request w c (Call_update_record a t r fs rb) = update_record_request c a t r fs rb"
| "client_request w c (Call_update_multiple_records a t rs) = update_multiple_records_request c a t rs"
| "client_request w c (Call_list_records a t opts) = list_records_request c a t opts"

section \<open>Vocabulary of the properties\<close>

text \<open>What a computation returns, and what it lets escape.\<close>

definition results :: "'a io \<Rightarrow> ('a \<Rightarrow> bool) \<Rightarrow> bool" where
  "results m P = (\<forall>s x s'. m s = (Inr x, s') \<longrightarrow> P x)"

definition escapes :: "'a io \<Rightarrow> (exn \<Rightarrow> bool) \<Rightarrow> bool" where
  "escapes m P = (\<forall>s e s'. m s = (Inl e, s') \<longrightarrow> P e)"

text \<open>The two shapes of an envelope, and the third one of the base-creation tool.\<close>

definition success_shape :: "envelope \<Rightarrow> bool" where
  "success_shape env = (data env \<noteq> [] \<and> error env = [] \<and> successful env)"

definition failure_shape :: "envelope \<Rightarrow> bool" where
  "failure_shape env = (data env = [] \<and> error env \<noteq> [] \<and> \<not> successful env)"

definition base_creation_shape :: "envelope \<Rightarrow> bool" where
  "base_creation_shape env = (data env \<noteq> [] \<and> error env = [] \<and> \<not> successful env)"

definition is_create_base :: "tool_call \<Rightarrow> bool" where
  "is_create_base c = (case c of Create_base name tables workspace_id \<Rightarrow> True | _ \<Rightarrow> False)"

definition is_list_records :: "tool_call \<Rightarrow> bool" where
  "is_list_records c = (case c of List_records base_id table_id_or_name args \<Rightarrow> True | _ \<Rightarrow> False)"

text \<open>
  A client can be obtained: the global is set, or the environment holds a non-empty key.
\<close>

definition client_available :: "world \<Rightarrow> state \<Rightarrow> bool" where
  "client_available w s =
     (airtable_client s \<noteq> None
      \<or> (case getenv_AIRTABLE_API_KEY w of None \<Rightarrow> False | Some key \<Rightarrow> key \<noteq> []))"

definition credential_message :: string where
  "credential_message = ''Unexpected error: AIRTABLE_API_KEY environment variable is required''"

text \<open>
  The required string parameters of each tool in the order the tool tests them:
  parameter name, value received, and the message of the test.
\<close>

fun required_params :: "tool_call \<Rightarrow> (string \<times> string \<times> string) list" where
  "required_params (Create_base name tables workspace_id) =
     [(''name'', name, ''Base name is required''),
      (''workspace_id'', workspace_id, ''Workspace ID is required''),
      (''tables'', tables, ''Tables configuration is required'')]"
| "required_params (Create_comment base_id record_id table_id_or_name text) =
     [(''base_id'', base_id, ''Base ID is required''),
      (''record_id'', record_id, ''Record ID is required''),
      (''table_id_or_name'', table_id_or_name, ''Table ID or name is required''),
      (''text'', text, ''Comment text is required'')]"
| "required_params (Create_field base_id table_id name type description options) =
     [(''base_id'', base_id, ''Base ID is required''),
      (''table_id'', table_id, ''Table ID is required''),
      (''name'', name, ''Field name is required'')]"
| "required_params (Create_multiple_records base_id table_id_or_name records) =
     [(''base_id'', base_id, ''Base ID is required''),
      (''table_id_or_name'', table_id_or_name, ''Table ID or name is required''),
      (''records'', records, ''Records data is required'')]"
| "required_params (Create_record base_id table_id_or_name fields_json) =
     [(''base_id'', base_id, ''Base ID is required''),
      (''table_id_or_name'', table_id_or_name, ''Table ID or name is required''),
      (''fields'', fields_json, ''Fields data is required'')]"
| "required_params (Create_table base_id name fields_json description) =
     [(''base_id'', base_id, ''Base ID is required''),
      (''name'', name, ''Table name is required''),
      (''fields'', fields_json, ''Fields data is required'')]"
| "required_params (Get_base_schema base_id) =
     [(''base_id'', base_id, ''Base ID is required'')]"
| "required_params (Get_record base_id table_id_or_name record_id cell_fmt return_by_id) =
     [(''base_id'', base_id, ''Base ID is required''),
      (''table_id_or_name'', table_id_or_name, ''Table ID or name is required''),
      (''record_id'', record_id, ''Record ID is required'')]"
| "required_params Get_user_info = []"
| "required_params List_bases = []"
| "required_params (List_comments base_id table_id_or_name record_id) =
     [(''base_id'', base_id, ''Base ID is required''),
      (''table_id_or_name'', table_id_or_name, ''Table ID or name is required''),
      (''record_id'', record_id, ''Record ID is required'')]"
| "required_params (Delete_record base_id table_id_or_name record_id) =
     [(''base_id'', base_id, ''Base ID is required''),
      (''table_id_or_name'', table_id_or_name, ''Table ID or name is required''),
      (''record_id'', record_id, ''Record ID is required'')]"
| "required_params (Delete_multiple_records base_id table_id_or_name record_ids) =
     [(''base_id'', base_id, ''Base ID is required''),
      (''table_id_or_name'', table_id_or_name, ''Table ID or name is required''),
      (''record_ids'', record_ids, ''Record IDs are required'')]"
| "required_params (Delete_comment base_id table_id_or_name record_id row_comment_id) =
     [(''base_id'', base_id, ''Base ID is required''),
      (''table_id_or_name'', table_id_or_name, ''Table ID or name is required''),
      (''record_id'', record_id, ''Record ID is required''),
      (''row_comment_id'', row_comment_id, ''Row comment ID is required'')]"
| "required_params (Update_record base_id table_id_or_name record_id fields_json return_by_id) =
     [(''base_id'', base_id, ''Base ID is required''),
      (''table_id_or_name'', table_id_or_name, ''Table ID or name is required''),
      (''record_id'', record_id, ''Record ID is required''),
      (''fields'', fields_json, ''Fields data is required'')]"
| "required_params (Update_multiple_records base_id table_id_or_name records) =
     [(''base_id'', base_id, ''Base ID is required''),
      (''table_id_or_name'', table_id_or_name, ''Table ID or name is required''),
      (''records'', records, ''Records data is required'')]"
| "required_params (List_records base_id table_id_or_name args) =
     [(''base_id'', base_id, ''Base ID is required''),
      (''table_id_or_name'', table_id_or_name, ''Table ID or name is required'')]"

text \<open>The first blank parameter of such a list: its name and its message.\<close>

fun first_blank :: "(string \<times> string \<times> string) list \<Rightarrow> (string \<times> string) option" where
  "first_blank [] = None"
| "first_blank ((param, x, msg) # rest) =
     (if blank x then Some (param, msg) else first_blank rest)"

text \<open>
  The JSON-string parameters of each tool in the order the tool decodes them: parameter
  name, value received, whether an array (\<open>True\<close>) or an object is expected, the message
  for a decoded value of the other kind, and whether the parameter is optional.
\<close>

fun json_params :: "tool_call \<Rightarrow> (string \<times> string \<times> bool \<times> string \<times> bool) list" where
  "json_params (Create_base name tables workspace_id) =
     [(''tables'', tables, True, ''Tables must be an array of table objects'', False)]"
| "json_params (Create_multiple_records base_id table_id_or_name records) =
     [(''records'', records, True, ''Records must be an array of record objects'', False)]"
| "json_params (Create_record base_id table_id_or_name fields_json) =
     [(''fields'', fields_json, False, ''Fields must be a JSON object'', False)]"
| "json_params (Create_table base_id name fields_json description) =
     [(''fields'', fields_json, True, ''Fields must be an array of field objects'', False)]"
| "json_params (Delete_multiple_records base_id table_id_or_name record_ids) =
     [(''record_ids'', record_ids, True, ''Record IDs must be an array of record ID strings'',
       False)]"
| "json_params (Update_record base_id table_id_or_name record_id fields_json return_by_id) =
     [(''fields'', fields_json, False, ''Fields must be a JSON object'', False)]"
| "json_params (Update_multiple_records base_id table_id_or_name records) =
     [(''records'', records, True, ''Records must be an array of record objects'', False)]"
| "json_params (List_records base_id table_id_or_name args) =
     [(''fields'', arg_fields args, True, ''Fields must be a JSON array'', True),
      (''sort'', arg_sort args, True, ''Sort must be a JSON array'', True),
      (''record_metadata'', arg_record_metadata args, True,
       ''Record metadata must be a JSON array'', True)]"
| "json_params c = []"

definition has_kind :: "bool \<Rightarrow> json \<Rightarrow> bool" where
  "has_kind array v =
     (case v of JArr xs \<Rightarrow> array | JObj items \<Rightarrow> \<not> array | _ \<Rightarrow> False)"

text \<open>
  The first JSON-string parameter that is rejected, with the message the properties
  expect for it: an optional parameter that is blank is passed over; a string the
  decoder rejects gives the decoder's text after a fixed prefix; a decoded value of the
  other kind gives the parameter's own message.
\<close>

fun json_fault ::
  "world \<Rightarrow> (string \<times> string \<times> bool \<times> string \<times> bool) list \<Rightarrow> string option" where
  "json_fault w [] = None"
| "json_fault w ((param, raw, array, shape_msg, optional) # rest) =
     (if optional \<and> blank raw then json_fault w rest
      else
        (case json_loads w raw of
           Loads_JSONDecodeError m \<Rightarrow>
             Some (''Invalid JSON format for '' @ param @ '' parameter: '' @ m)
         | Loads_Raises e \<Rightarrow> None
         | Loads_Ok v \<Rightarrow> if has_kind array v then json_fault w rest else Some shape_msg))"

text \<open>The entries the two structure checks reject.\<close>

definition bad_table :: "json \<Rightarrow> bool" where
  "bad_table table = (\<not> is_dict table \<or> \<not> has_key ''name'' table \<or> \<not> has_key ''fields'' table)"

definition bad_field :: "json \<Rightarrow> bool" where
  "bad_field field = (\<not> is_dict field \<or> \<not> has_key ''name'' field \<or> \<not> has_key ''type'' field)"

text \<open>A record identifier the bulk deletion accepts: a string that is not blank.\<close>

definition good_record_id :: "json \<Rightarrow> bool" where
  "good_record_id v = (case v of JStr t \<Rightarrow> strip t \<noteq> [] | _ \<Rightarrow> False)"

text \<open>The shapes the seventeen tools can return, as one predicate each.\<close>

definition plain_shape :: "envelope \<Rightarrow> bool" where
  "plain_shape env = (success_shape env \<or> failure_shape env)"

definition base_shape :: "envelope \<Rightarrow> bool" where
  "base_shape env = (failure_shape env \<or> base_creation_shape env)"

section \<open>Concrete surroundings\<close>

text \<open>
  A decoder that knows a handful of documents and rejects every other string, a few
  upstream behaviours, and the state of a process that has not built its client yet.
\<close>

definition example_loads :: "string \<Rightarrow> loads_result" where
  \<open>example_loads x =
     (if x = ''[{"name":"T","fields":[]}]''
        then Loads_Ok (JArr [JObj [(''name'', JStr ''T''), (''fields'', JArr [])]])
      else if x = ''["rec1"]'' then Loads_Ok (JArr [JStr ''rec1''])
      else if x = ''[" "]'' then Loads_Ok (JArr [JStr '' ''])
      else if x = ''[]'' then Loads_Ok (JArr [])
      else if x = ''[1, 2]'' then Loads_Ok (JArr [JInt 1, JInt 2])
      else if x = ''{"Name":"x"}'' then Loads_Ok (JObj [(''Name'', JStr ''x'')])
      else if x = ''[{"name":"A","type":"number"},{"name":"B"}]''
        then Loads_Ok (JArr [JObj [(''name'', JStr ''A''), (''type'', JStr ''number'')],
                             JObj [(''name'', JStr ''B'')]])
      else if x = '' '' then Loads_JSONDecodeError ''Expecting value: line 1 column 2 (char 1)''
      else Loads_JSONDecodeError ''Expecting value: line 1 column 1 (char 0)'')\<close>

definition example_world :: "string option \<Rightarrow> (request \<Rightarrow> http_outcome) \<Rightarrow> world" where
  "example_world key upstream =
     \<lparr>getenv_AIRTABLE_API_KEY = key, json_loads = example_loads, http = upstream,
      py_hash = (\<lambda>name. 123456789), py_format = type_name\<rparr>"

definition upstream_401 :: "request \<Rightarrow> http_outcome" where
  "upstream_401 req =
     Raised_HTTPError 401
       (Some (JObj [(''error'', JObj [(''type'', JStr ''INVALID_API_KEY''),
                                      (''message'', JStr ''bad key'')])]))
       (''401 Client Error: Unauthorized for url: '' @ req_url req)"

definition upstream_down :: "request \<Rightarrow> http_outcome" where
  "upstream_down req = Raised_RequestException ''Connection refused''"

definition upstream_interrupted :: "request \<Rightarrow> http_outcome" where
  "upstream_interrupted req = Raised_Other (PyBaseException ''KeyboardInterrupt'' [])"

definition upstream_empty :: "request \<Rightarrow> http_outcome" where
  "upstream_empty req = Returned (JObj [])"

definition upstream_garbled :: "request \<Rightarrow> http_outcome" where
  "upstream_garbled req =
     Raised_Other (PyException ''ValueError'' ''Expecting value: line 1 column 1 (char 0)'')"

definition fresh :: state where
  "fresh = \<lparr>airtable_client = None, network_calls = []\<rparr>"

definition default_list_args :: list_args where
  "default_list_args =
     \<lparr>arg_cell_format = ''json'', arg_fields = [], arg_filter_by_formula = [],
      arg_max_records = 0, arg_offset = [], arg_page_size = 100, arg_record_metadata = [],
      arg_return_fields_by_field_id = False, arg_sort = [], arg_time_zone = ''utc'',
      arg_user_locale = [], arg_view = []\<rparr>"

section \<open>Properties\<close>

subsection \<open>Rules for what a computation returns\<close>

lemma resultsD: "results m P \<Longrightarrow> m s = (Inr x, s') \<Longrightarrow> P x"
  by (auto simp: results_def)

lemma results_returns: "P x \<Longrightarrow> results (returns x) P"
  by (simp add: results_def returns_def)

lemma results_raise: "results (raise e) P"
  by (simp add: results_def raise_def)

lemma results_bind: "(\<And>x. results (f x) P) \<Longrightarrow> results (bind_io m f) P"
  by (auto simp: results_def bind_io_def split: prod.splits sum.splits)

lemma results_lift:
  "(\<And>x. r = Inr x \<Longrightarrow> results (f x) P) \<Longrightarrow> results (bind_io (lift r) f) P"
  by (auto simp: results_def bind_io_def lift_def split: prod.splits sum.splits)

lemma results_if:
  "(c \<Longrightarrow> results a P) \<Longrightarrow> (\<not> c \<Longrightarrow> results b P) \<Longrightarrow> results (if c then a else b) P"
  by simp

lemma results_except:
  assumes "results body P" and "\<And>msg. P (failure (''Unexpected error: '' @ msg))"
  shows "results (except_Exception w body) P"
  using assms
  by (auto simp: results_def except_Exception_def split: prod.splits sum.splits if_splits)

lemma results_parse_optional:
  assumes "\<And>xs. results (k xs) P" and "\<And>m. P (failure (pre @ m))" and "P (failure shape_msg)"
  shows "results (parse_optional_list w raw pre shape_msg k) P"
  using assms unfolding parse_optional_list_def
  by (auto split: loads_result.split json.split intro: results_returns results_raise)

lemma plain_failure: "msg \<noteq> [] \<Longrightarrow> plain_shape (failure msg)"
  by (simp add: plain_shape_def failure_shape_def failure_def)

lemma plain_success: "d \<noteq> [] \<Longrightarrow> plain_shape \<lparr>data = d, error = [], successful = True\<rparr>"
  by (simp add: plain_shape_def success_shape_def)

lemma validate_tables_msg: "validate_tables i xs = Some m \<Longrightarrow> m \<noteq> []"
  by (induction i xs rule: validate_tables.induct) (auto split: if_splits)
lemma validate_new_records_msg: "validate_new_records i xs = Some m \<Longrightarrow> m \<noteq> []"
  by (induction i xs rule: validate_new_records.induct) (auto split: if_splits)
lemma validate_fields_msg: "validate_fields i xs = Some m \<Longrightarrow> m \<noteq> []"
  by (induction i xs rule: validate_fields.induct) (auto split: if_splits)
lemma validate_record_ids_msg: "validate_record_ids i xs = Some m \<Longrightarrow> m \<noteq> []"
  by (induction i xs rule: validate_record_ids.induct) (auto split: if_splits)
lemma validate_updated_records_msg: "validate_updated_records i xs = Some m \<Longrightarrow> m \<noteq> []"
  by (induction i xs rule: validate_updated_records.induct) (auto split: if_splits)

lemmas validate_msgs = validate_tables_msg validate_new_records_msg validate_fields_msg
  validate_record_ids_msg validate_updated_records_msg

lemma data_nonempty:
  "create_base_data r0 n0 w0 t0 = Inr x \<Longrightarrow> x \<noteq> []"
  "create_comment_data r1 a1 b1 c1 d1 = Inr x \<Longrightarrow> x \<noteq> []"
  "create_field_data r2 a2 b2 c2 d2 e2 f2 = Inr x \<Longrightarrow> x \<noteq> []"
  "create_multiple_records_data r3 a3 b3 = Inr x \<Longrightarrow> x \<noteq> []"
  "create_record_data r4 a4 b4 c4 = Inr x \<Longrightarrow> x \<noteq> []"
  "create_table_data r5 a5 b5 c5 d5 = Inr x \<Longrightarrow> x \<noteq> []"
  "get_base_schema_data r6 a6 = Inr x \<Longrightarrow> x \<noteq> []"
  "get_record_data r7 a7 b7 c7 d7 e7 = Inr x \<Longrightarrow> x \<noteq> []"
  "get_user_info_data r8 = Inr x \<Longrightarrow> x \<noteq> []"
  "list_bases_data r9 = Inr x \<Longrightarrow> x \<noteq> []"
  "list_comments_data r10 a10 b10 c10 = Inr x \<Longrightarrow> x \<noteq> []"
  "delete_record_data r11 a11 b11 c11 = Inr x \<Longrightarrow> x \<noteq> []"
  "delete_multiple_records_data r12 a12 b12 c12 = Inr x \<Longrightarrow> x \<noteq> []"
  "update_record_data r13 a13 b13 c13 d13 e13 = Inr x \<Longrightarrow> x \<noteq> []"
  "update_multiple_records_data r14 a14 b14 = Inr x \<Longrightarrow> x \<noteq> []"
  "list_records_data r15 a15 b15 c15 = Inr x \<Longrightarrow> x \<noteq> []"
  by (auto simp: create_base_data_def create_comment_data_def create_field_data_def
      create_multiple_records_data_def create_record_data_def create_table_data_def
      get_base_schema_data_def get_record_data_def get_user_info_data_def list_bases_data_def
      list_comments_data_def delete_record_data_def delete_multiple_records_data_def
      update_record_data_def update_multiple_records_data_def list_records_data_def
      bind_exn_def split: sum.splits)

lemmas results_rules = results_except results_if results_returns results_raise results_bind
  results_lift results_parse_optional

lemma shape_create_comment: "results (airtable_create_comment w a b c d) plain_shape"
  unfolding airtable_create_comment_def
  by (intro results_rules plain_failure plain_success) (auto dest: data_nonempty)

lemma shape_create_field: "results (airtable_create_field w a b c d e f) plain_shape"
  unfolding airtable_create_field_def
  by (intro results_rules plain_failure plain_success) (auto dest: data_nonempty)

lemma shape_get_base_schema: "results (airtable_get_base_schema w a) plain_shape"
  unfolding airtable_get_base_schema_def
  by (intro results_rules plain_failure plain_success) (auto dest: data_nonempty)

lemma shape_get_record: "results (airtable_get_record w a b c d e) plain_shape"
  unfolding airtable_get_record_def
  by (intro results_rules plain_failure plain_success) (auto dest: data_nonempty)

lemma shape_get_user_info: "results (airtable_get_user_info w) plain_shape"
  unfolding airtable_get_user_info_def
  by (intro results_rules plain_failure plain_success) (auto dest: data_nonempty)

lemma shape_list_bases: "results (airtable_list_bases w) plain_shape"
  unfolding airtable_list_bases_def
  by (intro results_rules plain_failure plain_success) (auto dest: data_nonempty)

lemma shape_list_comments: "results (airtable_list_comments w a b c) plain_shape"
  unfolding airtable_list_comments_def
  by (intro results_rules plain_failure plain_success) (auto dest: data_nonempty)

lemma shape_delete_record: "results (airtable_delete_record w a b c) plain_shape"
  unfolding airtable_delete_record_def
  by (intro results_rules plain_failure plain_success) (auto dest: data_nonempty)

lemma shape_delete_comment: "results (airtable_delete_comment w a b c d) plain_shape"
  unfolding airtable_delete_comment_def
  by (intro results_rules plain_failure plain_success) (auto simp: delete_comment_data_def)

lemma shape_list_records: "results (airtable_list_records w a b args) plain_shape"
  unfolding airtable_list_records_def
  by (intro results_rules plain_failure plain_success) (auto dest: data_nonempty)

lemma shape_create_multiple_records:
  "results (airtable_create_multiple_records w a b c) plain_shape"
  unfolding airtable_create_multiple_records_def
  apply (intro results_except results_if results_returns plain_failure)
        apply simp_all
  apply (auto split: loads_result.split json.split option.split
      intro!: results_returns results_raise results_bind results_lift plain_failure plain_success
      dest: validate_msgs data_nonempty)
  done

lemma shape_create_record: "results (airtable_create_record w a b c) plain_shape"
  unfolding airtable_create_record_def
  apply (intro results_except results_if results_returns plain_failure)
        apply simp_all
  apply (auto split: loads_result.split json.split option.split
      intro!: results_returns results_raise results_bind results_lift plain_failure plain_success
      dest: validate_msgs data_nonempty)
  done

lemma shape_create_table: "results (airtable_create_table w a b c d) plain_shape"
  unfolding airtable_create_table_def
  apply (intro results_except results_if results_returns plain_failure)
        apply simp_all
  apply (auto split: loads_result.split json.split option.split
      intro!: results_returns results_raise results_bind results_lift plain_failure plain_success
      dest: validate_msgs data_nonempty)
  done

lemma shape_delete_multiple_records:
  "results (airtable_delete_multiple_records w a b c) plain_shape"
  unfolding airtable_delete_multiple_records_def
  apply (intro results_except results_if results_returns plain_failure)
        apply simp_all
  apply (auto split: loads_result.split json.split option.split
      intro!: results_returns results_raise results_bind results_lift plain_failure plain_success
      dest: validate_msgs data_nonempty)
  done

lemma shape_update_record: "results (airtable_update_record w a b c d e) plain_shape"
  unfolding airtable_update_record_def
  apply (intro results_except results_if results_returns plain_failure)
        apply simp_all
  apply (auto split: loads_result.split json.split option.split
      intro!: results_returns results_raise results_bind results_lift plain_failure plain_success
      dest: validate_msgs data_nonempty)
  done

lemma shape_update_multiple_records:
  "results (airtable_update_multiple_records w a b c) plain_shape"
  unfolding airtable_update_multiple_records_def
  apply (intro results_except results_if results_returns plain_failure)
        apply simp_all
  apply (auto split: loads_result.split json.split option.split
      intro!: results_returns results_raise results_bind results_lift plain_failure plain_success
      dest: validate_msgs data_nonempty)
  done

lemma base_failure: "msg \<noteq> [] \<Longrightarrow> base_shape (failure msg)"
  by (simp add: base_shape_def failure_shape_def failure_def)

lemma base_success: "d \<noteq> [] \<Longrightarrow> base_shape \<lparr>data = d, error = [], successful = False\<rparr>"
  by (simp add: base_shape_def base_creation_shape_def)

lemma create_base_api_error_shape: "base_shape (create_base_api_error w t m)"
  by (simp add: create_base_api_error_def Let_def base_failure)

lemma results_create_base_handlers:
  assumes "results body base_shape"
  shows "results (create_base_handlers w body) base_shape"
  using assms
  by (auto simp: results_def create_base_handlers_def create_base_api_error_shape base_failure
      split: prod.splits sum.splits if_splits exn.splits)

lemma shape_create_base: "results (airtable_create_base w a b c) base_shape"
  unfolding airtable_create_base_def
  apply (intro results_create_base_handlers results_bind results_if results_returns base_failure)
        apply simp_all
  apply (auto split: loads_result.split json.split option.split
      intro!: results_returns results_raise results_bind results_lift base_failure base_success
      dest: validate_msgs data_nonempty)
  done

lemma shape_exclusive: "success_shape env \<Longrightarrow> \<not> failure_shape env"
  by (simp add: success_shape_def failure_shape_def)

subsection \<open>C2: the shape of every returned envelope\<close>

text \<open>
  Claim C2. Whatever a tool returns, exactly one of the two envelope shapes holds:
  non-empty data, empty error and \<open>successful = True\<close>, or empty data, non-empty error
  and \<open>successful = False\<close>. The only exception is the base-creation tool, which
  returns populated data, an empty error and \<open>successful = False\<close>.
\<close>

theorem envelope_shape:
  assumes "run_tool w c s = (Inr env, s')"
  shows "(success_shape env \<noteq> failure_shape env) \<or> (is_create_base c \<and> base_creation_shape env)"
proof (cases "is_create_base c")
  case True
  then obtain name tables workspace_id where c: "c = Create_base name tables workspace_id"
    by (cases c) (simp_all add: is_create_base_def)
  from assms have "base_shape env"
    using resultsD[OF shape_create_base, of w name tables workspace_id s env s'] by (simp add: c)
  with True show ?thesis
    by (auto simp: base_shape_def dest: shape_exclusive)
next
  case False
  have "plain_shape env"
    using assms False
    by (cases c)
      (auto simp: is_create_base_def
        dest: resultsD[OF shape_create_comment] resultsD[OF shape_create_field]
          resultsD[OF shape_create_multiple_records] resultsD[OF shape_create_record]
          resultsD[OF shape_create_table] resultsD[OF shape_get_base_schema]
          resultsD[OF shape_get_record] resultsD[OF shape_get_user_info]
          resultsD[OF shape_list_bases] resultsD[OF shape_list_comments]
          resultsD[OF shape_delete_record] resultsD[OF shape_delete_multiple_records]
          resultsD[OF shape_delete_comment] resultsD[OF shape_update_record]
          resultsD[OF shape_update_multiple_records] resultsD[OF shape_list_records])
  then show ?thesis
    by (auto simp: plain_shape_def dest: shape_exclusive)
qed


lemmas io_defs = bind_io_def returns_def raise_def lift_def bind_exn_def except_Exception_def
  get_airtable_client_def send_request_def mk_request_def is_Exception_def

theorem envelope_shape_witness:
  "run_tool (example_world (Some ''key123'') upstream_empty) Get_user_info fresh =
     (Inr \<lparr>data = [(''user'', JObj []), (''user_id'', JStr []), (''scopes'', JArr []),
                    (''status'', JStr ''user_info_retrieved''),
                    (''message'', JStr ''User information retrieved successfully'')],
            error = [], successful = True\<rparr>,
      \<lparr>airtable_client = Some (AirtableClient ''key123''),
       network_calls = [get_user_info_request (AirtableClient ''key123'')]\<rparr>)
   \<and> success_shape
        \<lparr>data = [(''user'', JObj []), (''user_id'', JStr []), (''scopes'', JArr []),
                 (''status'', JStr ''user_info_retrieved''),
                 (''message'', JStr ''User information retrieved successfully'')],
         error = [], successful = True\<rparr>"
proof -
  have run: "run_tool (example_world (Some ''key123'') upstream_empty) Get_user_info fresh =
     (Inr \<lparr>data = [(''user'', JObj []), (''user_id'', JStr []), (''scopes'', JArr []),
                    (''status'', JStr ''user_info_retrieved''),
                    (''message'', JStr ''User information retrieved successfully'')],
            error = [], successful = True\<rparr>,
      \<lparr>airtable_client = Some (AirtableClient ''key123''),
       network_calls = [get_user_info_request (AirtableClient ''key123'')]\<rparr>)"
    by (simp add: airtable_get_user_info_def io_defs example_world_def fresh_def
        client_get_user_info_def upstream_empty_def get_user_info_data_def py_get_def)
  from envelope_shape [OF run] run show ?thesis
    by (simp add: is_create_base_def failure_shape_def)
qed

subsection \<open>Validation comes first\<close>

lemma except_returns: "except_Exception w (returns x) s = (Inr x, s)"
  by (simp add: except_Exception_def returns_def)

lemma client_availableD:
  assumes "client_available w s"
  shows "\<exists>c s1. get_airtable_client w s = (Inr c, s1) \<and> network_calls s1 = network_calls s"
  using assms
  by (auto simp: client_available_def get_airtable_client_def split: option.splits)

lemma create_base_after_client:
  assumes "get_airtable_client w s = (Inr c, s1)" and "f c = returns x"
  shows "create_base_handlers w (bind_io (get_airtable_client w) f) s = (Inr x, s1)"
  using assms by (simp add: create_base_handlers_def bind_io_def returns_def)

lemma blank_rejected_before_client:
  assumes "\<not> is_create_base c" and "first_blank (required_params c) = Some (param, msg)"
  shows "run_tool w c s = (Inr (failure msg), s)"
  using assms
  by (cases c)
    (auto simp: is_create_base_def except_returns airtable_create_comment_def
      airtable_create_field_def airtable_create_multiple_records_def airtable_create_record_def
      airtable_create_table_def airtable_get_base_schema_def airtable_get_record_def
      airtable_list_comments_def airtable_delete_record_def
      airtable_delete_multiple_records_def airtable_delete_comment_def
      airtable_update_record_def airtable_update_multiple_records_def
      airtable_list_records_def
      split: if_splits)

lemma blank_rejected_create_base:
  assumes "get_airtable_client w s = (Inr c, s1)"
    and "first_blank (required_params (Create_base name tables workspace_id)) = Some (param, msg)"
  shows "airtable_create_base w name tables workspace_id s = (Inr (failure msg), s1)"
  unfolding airtable_create_base_def
  by (rule create_base_after_client [OF assms(1)]) (use assms(2) in \<open>auto split: if_splits\<close>)

subsection \<open>C3: a blank required parameter\<close>

text \<open>
  Claim C3, as amended. For every tool, when some required string parameter is empty or
  consists only of whitespace, the tool returns an envelope with empty data,
  \<open>successful = False\<close> and the message of the first blank parameter in the order the
  tool tests them (\<open>required_params\<close>), and it issues no network call. For the
  base-creation tool, which obtains the client before it validates, this is stated when
  a client can be obtained.
\<close>

theorem first_blank_parameter_rejected:
  assumes "first_blank (required_params c) = Some (param, msg)"
    and "is_create_base c \<Longrightarrow> client_available w s"
  shows "\<exists>s'. run_tool w c s = (Inr (failure msg), s') \<and> network_calls s' = network_calls s"
proof (cases "is_create_base c")
  case False
  with assms(1) show ?thesis
    by (auto dest: blank_rejected_before_client)
next
  case True
  then obtain name tables workspace_id where c: "c = Create_base name tables workspace_id"
    by (cases c) (simp_all add: is_create_base_def)
  from True assms(2) obtain cl s1
    where cl: "get_airtable_client w s = (Inr cl, s1)" "network_calls s1 = network_calls s"
    by (blast dest: client_availableD)
  from blank_rejected_create_base [OF cl(1)] assms(1) cl(2) show ?thesis
    by (auto simp: c)
qed

lemmas blank_defs = blank_def strip_def py_isspace_def

theorem first_blank_parameter_rejected_witness:
  "first_blank (required_params (Create_base '' '' ''[]'' ''wsp123'')) =
     Some (''name'', ''Base name is required'')
   \<and> client_available (example_world (Some ''key123'') upstream_down) fresh
   \<and> run_tool (example_world (Some ''key123'') upstream_down)
        (Create_base '' '' ''[]'' ''wsp123'') fresh =
      (Inr (failure ''Base name is required''),
       \<lparr>airtable_client = Some (AirtableClient ''key123''), network_calls = []\<rparr>)"
proof -
  have a: "first_blank (required_params (Create_base '' '' ''[]'' ''wsp123'')) =
     Some (''name'', ''Base name is required'')"
    by (simp add: blank_defs)
  have b: "client_available (example_world (Some ''key123'') upstream_down) fresh"
    by (simp add: client_available_def example_world_def)
  from first_blank_parameter_rejected [OF a b] a b show ?thesis
    by (simp add: airtable_create_base_def create_base_handlers_def io_defs blank_defs
        example_world_def fresh_def)
qed

text \<open>
  As the claim is worded, every blank required parameter is named by the error. With
  \<^verbatim>\<open>base_id\<close> and \<^verbatim>\<open>record_id\<close> both empty, \<^verbatim>\<open>airtable_create_comment\<close> reports the
  base identifier only.
\<close>

theorem blank_record_id_counterexample:
  "blank []
   \<and> run_tool (example_world None upstream_down)
        (Create_comment [] [] ''tbl1'' ''hello'') fresh =
      (Inr (failure ''Base ID is required''), fresh)
   \<and> \<not> contains ''Base ID is required'' ''Record''"
proof -
  have "\<not> contains ''Base ID is required'' ''Record''" by code_simp
  then show ?thesis
    by (simp add: blank_defs airtable_create_comment_def except_returns)
qed

subsection \<open>C10: the base-creation tool obtains the client before it validates\<close>

text \<open>
  Claim C10. When no credential is configured (no client built yet and no key in the
  environment), \<^verbatim>\<open>airtable_create_base\<close> returns empty data, \<open>successful = False\<close> and
  the error \<^verbatim>\<open>Unexpected error: AIRTABLE_API_KEY environment variable is required\<close>
  whatever its parameters are, blank ones included; every other tool tests its required
  parameters first, so that in the same situation a blank one yields the validation
  message of that parameter.
\<close>

theorem create_base_looks_up_the_client_first:
  assumes "airtable_client s = None"
    and "getenv_AIRTABLE_API_KEY w = None \<or> getenv_AIRTABLE_API_KEY w = Some []"
  shows "run_tool w (Create_base name tables workspace_id) s =
           (Inr (failure ''Unexpected error: AIRTABLE_API_KEY environment variable is required''), s)
         \<and> (\<not> is_create_base c \<longrightarrow> first_blank (required_params c) = Some (param, msg) \<longrightarrow>
              run_tool w c s = (Inr (failure msg), s))"
proof
  from assms show "run_tool w (Create_base name tables workspace_id) s =
      (Inr (failure ''Unexpected error: AIRTABLE_API_KEY environment variable is required''), s)"
    by (auto simp: airtable_create_base_def create_base_handlers_def bind_io_def
        get_airtable_client_def is_Exception_def py_str_def)
next
  show "\<not> is_create_base c \<longrightarrow> first_blank (required_params c) = Some (param, msg) \<longrightarrow>
      run_tool w c s = (Inr (failure msg), s)"
    by (blast intro: blank_rejected_before_client)
qed

theorem create_base_looks_up_the_client_first_witness:
  "airtable_client fresh = None
   \<and> getenv_AIRTABLE_API_KEY (example_world None upstream_down) = None
   \<and> run_tool (example_world None upstream_down) (Create_base [] [] []) fresh =
       (Inr (failure ''Unexpected error: AIRTABLE_API_KEY environment variable is required''),
        fresh)
   \<and> \<not> is_create_base (Get_base_schema '' '')
   \<and> first_blank (required_params (Get_base_schema '' '')) =
        Some (''base_id'', ''Base ID is required'')
   \<and> run_tool (example_world None upstream_down) (Get_base_schema '' '') fresh =
       (Inr (failure ''Base ID is required''), fresh)"
proof -
  have a: "airtable_client fresh = None" by (simp add: fresh_def)
  have b: "getenv_AIRTABLE_API_KEY (example_world None upstream_down) = None
      \<or> getenv_AIRTABLE_API_KEY (example_world None upstream_down) = Some []"
    by (simp add: example_world_def)
  have c: "\<not> is_create_base (Get_base_schema '' '')" by (simp add: is_create_base_def)
  have d: "first_blank (required_params (Get_base_schema '' '')) =
      Some (''base_id'', ''Base ID is required'')"
    by (simp add: blank_defs)
  from create_base_looks_up_the_client_first [OF a b, of "[]" "[]" "[]" "Get_base_schema '' ''"
      "''base_id''" "''Base ID is required''"] a b c d
  show ?thesis by (simp add: example_world_def)
qed

subsection \<open>C7: a transport failure is a network error\<close>

text \<open>
  Claim C7. For every client method that issues a network call, a transport failure
  with no HTTP response (a \<^verbatim>\<open>RequestException\<close> other than \<^verbatim>\<open>HTTPError\<close>) makes the
  method raise an \<^verbatim>\<open>AirtableAPIError\<close> whose kind is \<^verbatim>\<open>network_error\<close> and whose
  status code is 0.
\<close>

theorem transport_failure_is_network_error:
  assumes "http w (client_request w c call) = Raised_RequestException msg"
  shows "client_run w c call s =
           (Inl (AirtableAPIError (JStr ''network_error'') (JStr (''Network error: '' @ msg)) 0),
            s\<lparr>network_calls := network_calls s @ [client_request w c call]\<rparr>)"
  using assms
  by (cases call)
    (simp_all add: send_request_def Let_def client_create_comment_def client_create_field_def
      client_create_multiple_records_def client_create_record_def client_create_table_def
      client_get_base_schema_def client_get_record_def client_get_user_info_def
      client_list_bases_def client_list_comments_def client_delete_comment_def
      client_delete_record_def client_delete_multiple_records_def client_update_record_def
      client_update_multiple_records_def client_list_records_def)

theorem transport_failure_is_network_error_witness:
  "http (example_world (Some ''key123'') upstream_down)
     (client_request (example_world (Some ''key123'') upstream_down) (AirtableClient ''key123'')
        (Call_delete_record ''app1'' ''tbl1'' ''rec1'')) =
     Raised_RequestException ''Connection refused''
   \<and> client_run (example_world (Some ''key123'') upstream_down) (AirtableClient ''key123'')
       (Call_delete_record ''app1'' ''tbl1'' ''rec1'') fresh =
     (Inl (AirtableAPIError (JStr ''network_error'') (JStr ''Network error: Connection refused'') 0),
      \<lparr>airtable_client = None,
       network_calls = [delete_record_request (AirtableClient ''key123'') ''app1'' ''tbl1'' ''rec1'']\<rparr>)"
proof -
  have a: "http (example_world (Some ''key123'') upstream_down)
     (client_request (example_world (Some ''key123'') upstream_down) (AirtableClient ''key123'')
        (Call_delete_record ''app1'' ''tbl1'' ''rec1'')) =
     Raised_RequestException ''Connection refused''"
    by (simp add: example_world_def upstream_down_def)
  from transport_failure_is_network_error [OF a, of fresh] a show ?thesis
    by (simp add: fresh_def)
qed

subsection \<open>C1: an invalid API key reported by the upstream\<close>

text \<open>
  Claim C1 asks every tool to answer an \<^verbatim>\<open>AirtableAPIError\<close> of kind
  \<^verbatim>\<open>INVALID_API_KEY\<close> with an error that contains the kind and the advice to check
  \<^verbatim>\<open>AIRTABLE_API_KEY\<close>. Only the handler of \<^verbatim>\<open>airtable_create_base\<close> does; the other
  tools have the catch-all handler alone. Here \<^verbatim>\<open>airtable_create_comment\<close> runs against
  an upstream that answers 401 with the body
  \<^verbatim>\<open>{"error":{"type":"INVALID_API_KEY","message":"bad key"}}\<close>: the error holds the kind
  but not the advice, while the handler of the base-creation tool would give it.
\<close>

theorem invalid_api_key_not_explained:
  "run_tool (example_world (Some ''key123'') upstream_401)
     (Create_comment ''app1'' ''rec1'' ''tbl1'' ''hi'') fresh =
     (Inr (failure ''Unexpected error: Airtable API Error (INVALID_API_KEY): bad key''),
      \<lparr>airtable_client = Some (AirtableClient ''key123''),
       network_calls =
         [create_comment_request (AirtableClient ''key123'') ''app1'' ''rec1'' ''tbl1'' ''hi'']\<rparr>)
   \<and> \<not> contains ''Unexpected error: Airtable API Error (INVALID_API_KEY): bad key''
         ''AIRTABLE_API_KEY''
   \<and> create_base_api_error (example_world (Some ''key123'') upstream_401)
       (JStr ''INVALID_API_KEY'') (JStr ''bad key'') =
     failure (''Airtable API Error: INVALID_API_KEY'' @ [CHR 0x0A, CHR 0x0A]
              @ ''Invalid API key. Please check your AIRTABLE_API_KEY.'')"
proof -
  have "\<not> contains ''Unexpected error: Airtable API Error (INVALID_API_KEY): bad key''
         ''AIRTABLE_API_KEY''"
    by code_simp
  then show ?thesis
    by (simp add: airtable_create_comment_def io_defs example_world_def fresh_def
      client_create_comment_def upstream_401_def http_error_handler_def py_get_def
      blank_defs py_str_def format_value_def create_base_api_error_def)
qed


subsection \<open>C4: a JSON-string parameter that is rejected\<close>

lemma json_rejected_create_multiple_records:
  assumes "first_blank (required_params (Create_multiple_records a b x)) = None"
    and "json_fault w (json_params (Create_multiple_records a b x)) = Some msg"
  shows "airtable_create_multiple_records w a b x s = (Inr (failure msg), s)"
proof -
  from assms(1) have nb: "\<not> blank a" "\<not> blank b" "\<not> blank x"
    by (auto split: if_splits)
  from assms(2) show ?thesis
    unfolding airtable_create_multiple_records_def
    by (simp add: nb has_kind_def except_returns split: loads_result.splits json.splits)
qed

lemma json_rejected_create_record:
  assumes "first_blank (required_params (Create_record a b x)) = None"
    and "json_fault w (json_params (Create_record a b x)) = Some msg"
  shows "airtable_create_record w a b x s = (Inr (failure msg), s)"
proof -
  from assms(1) have nb: "\<not> blank a" "\<not> blank b" "\<not> blank x"
    by (auto split: if_splits)
  from assms(2) show ?thesis
    unfolding airtable_create_record_def
    by (simp add: nb has_kind_def except_returns split: loads_result.splits json.splits)
qed

lemma json_rejected_create_table:
  assumes "first_blank (required_params (Create_table a b x d)) = None"
    and "json_fault w (json_params (Create_table a b x d)) = Some msg"
  shows "airtable_create_table w a b x d s = (Inr (failure msg), s)"
proof -
  from assms(1) have nb: "\<not> blank a" "\<not> blank b" "\<not> blank x"
    by (auto split: if_splits)
  from assms(2) show ?thesis
    unfolding airtable_create_table_def
    by (simp add: nb has_kind_def except_returns split: loads_result.splits json.splits)
qed

lemma json_rejected_delete_multiple_records:
  assumes "first_blank (required_params (Delete_multiple_records a b x)) = None"
    and "json_fault w (json_params (Delete_multiple_records a b x)) = Some msg"
  shows "airtable_delete_multiple_records w a b x s = (Inr (failure msg), s)"
proof -
  from assms(1) have nb: "\<not> blank a" "\<not> blank b" "\<not> blank x"
    by (auto split: if_splits)
  from assms(2) show ?thesis
    unfolding airtable_delete_multiple_records_def
    by (simp add: nb has_kind_def except_returns split: loads_result.splits json.splits)
qed

lemma json_rejected_update_record:
  assumes "first_blank (required_params (Update_record a b c x r)) = None"
    and "json_fault w (json_params (Update_record a b c x r)) = Some msg"
  shows "airtable_update_record w a b c x r s = (Inr (failure msg), s)"
proof -
  from assms(1) have nb: "\<not> blank a" "\<not> blank b" "\<not> blank c" "\<not> blank x"
    by (auto split: if_splits)
  from assms(2) show ?thesis
    unfolding airtable_update_record_def
    by (simp add: nb has_kind_def except_returns split: loads_result.splits json.splits)
qed

lemma json_rejected_update_multiple_records:
  assumes "first_blank (required_params (Update_multiple_records a b x)) = None"
    and "json_fault w (json_params (Update_multiple_records a b x)) = Some msg"
  shows "airtable_update_multiple_records w a b x s = (Inr (failure msg), s)"
proof -
  from assms(1) have nb: "\<not> blank a" "\<not> blank b" "\<not> blank x"
    by (auto split: if_splits)
  from assms(2) show ?thesis
    unfolding airtable_update_multiple_records_def
    by (simp add: nb has_kind_def except_returns split: loads_result.splits json.splits)
qed

lemma json_rejected_simple:
  assumes "first_blank (required_params c) = None"
    and "\<not> is_create_base c" and "\<not> is_list_records c"
    and "json_fault w (json_params c) = Some msg"
  shows "run_tool w c s = (Inr (failure msg), s)"
proof (cases c)
  case (Create_multiple_records a b x)
  with assms(1,4) show ?thesis by (simp only: run_tool.simps json_rejected_create_multiple_records)
next
  case (Create_record a b x)
  with assms(1,4) show ?thesis by (simp only: run_tool.simps json_rejected_create_record)
next
  case (Create_table a b x d)
  with assms(1,4) show ?thesis by (simp only: run_tool.simps json_rejected_create_table)
next
  case (Delete_multiple_records a b x)
  with assms(1,4) show ?thesis by (simp only: run_tool.simps json_rejected_delete_multiple_records)
next
  case (Update_record a b c x r)
  with assms(1,4) show ?thesis by (simp only: run_tool.simps json_rejected_update_record)
next
  case (Update_multiple_records a b x)
  with assms(1,4) show ?thesis by (simp only: run_tool.simps json_rejected_update_multiple_records)
qed (use assms(2,3,4) in \<open>simp_all add: is_create_base_def is_list_records_def\<close>)

lemma json_rejected_create_base:
  assumes "get_airtable_client w s = (Inr cl, s1)"
    and "first_blank (required_params (Create_base a x b)) = None"
    and "json_fault w (json_params (Create_base a x b)) = Some msg"
  shows "airtable_create_base w a x b s = (Inr (failure msg), s1)"
proof -
  from assms(2) have nb: "\<not> blank a" "\<not> blank b" "\<not> blank x"
    by (auto split: if_splits)
  show ?thesis
    unfolding airtable_create_base_def
    by (rule create_base_after_client [OF assms(1)])
      (use assms(3) in \<open>simp add: nb has_kind_def split: loads_result.splits json.splits\<close>)
qed

lemma except_after_client:
  assumes "get_airtable_client w s = (Inr c, s1)" and "f c = returns x"
  shows "except_Exception w (bind_io (get_airtable_client w) f) s = (Inr x, s1)"
  using assms by (simp add: except_Exception_def bind_io_def returns_def)

lemma parse_optional_fault:
  assumes "json_fault w ((p, raw, True, shape_msg, True) # rest) = Some msg"
    and "\<And>xs. json_fault w rest = Some msg \<Longrightarrow> k xs = returns (failure msg)"
  shows "parse_optional_list w raw (''Invalid JSON format for '' @ p @ '' parameter: '')
           shape_msg k = returns (failure msg)"
  using assms unfolding parse_optional_list_def
  by (auto simp: blank_def has_kind_def split: if_splits loads_result.splits json.splits)

lemma json_rejected_list_records:
  assumes "get_airtable_client w s = (Inr cl, s1)"
    and "first_blank (required_params (List_records a b args)) = None"
    and "json_fault w (json_params (List_records a b args)) = Some msg"
  shows "airtable_list_records w a b args s = (Inr (failure msg), s1)"
proof -
  from assms(2) have nb: "\<not> blank a" "\<not> blank b"
    by (auto split: if_splits)
  have "airtable_list_records w a b args s =
      except_Exception w (bind_io (get_airtable_client w) (\<lambda>client.
          parse_optional_list w (arg_fields args)
            (''Invalid JSON format for '' @ ''fields'' @ '' parameter: '') ''Fields must be a JSON array''
            (\<lambda>fields_list.
          parse_optional_list w (arg_sort args)
            (''Invalid JSON format for '' @ ''sort'' @ '' parameter: '') ''Sort must be a JSON array''
            (\<lambda>sort_list.
          parse_optional_list w (arg_record_metadata args)
            (''Invalid JSON format for '' @ ''record_metadata'' @ '' parameter: '')
            ''Record metadata must be a JSON array''
            (\<lambda>record_metadata_list.
          bind_io (client_list_records w client (strip a) (strip b)
                     \<lparr>opt_cell_format = strip (arg_cell_format args),
                      opt_fields = fields_list,
                      opt_filter_by_formula = strip_if (arg_filter_by_formula args),
                      opt_max_records = arg_max_records args,
                      opt_offset = strip_if (arg_offset args),
                      opt_page_size = arg_page_size args,
                      opt_record_metadata = record_metadata_list,
                      opt_return_fields_by_field_id = arg_return_fields_by_field_id args,
                      opt_sort = sort_list,
                      opt_time_zone = strip (arg_time_zone args),
                      opt_user_locale = strip_if (arg_user_locale args),
                      opt_view = strip_if (arg_view args)\<rparr>) (\<lambda>records_result.
          bind_io (lift (list_records_data records_result a b (arg_page_size args)))
            (\<lambda>d. returns \<lparr>data = d, error = [], successful = True\<rparr>))))))) s"
    unfolding airtable_list_records_def by (simp add: nb)
  also have "\<dots> = (Inr (failure msg), s1)"
    apply (rule except_after_client [OF assms(1)])
    apply (rule parse_optional_fault [OF assms(3) [unfolded json_params.simps]])
    apply (erule parse_optional_fault)
    apply (erule parse_optional_fault)
    apply simp
    done
  finally show ?thesis .
qed

text \<open>
  Claim C4, as amended. For every tool with a JSON-string parameter, when the required
  string parameters are not blank (and, for the base-creation and the list-records tools,
  which obtain the client before they decode, a client can be obtained), the first
  JSON-string parameter that is rejected decides the result: a non-blank string on which
  \<^verbatim>\<open>json.loads\<close> raises \<^verbatim>\<open>JSONDecodeError\<close> gives \<open>successful = False\<close> and the error
  \<^verbatim>\<open>Invalid JSON format for <param> parameter: \<close> followed by the decoder's text; a
  string that decodes to a value of the other kind (an object for an array, or the
  reverse) gives \<open>successful = False\<close> and the message of that parameter; no network
  call occurs. A blank optional parameter of the list-records tool is not decoded at all.
\<close>

theorem rejected_json_parameter:
  assumes "first_blank (required_params c) = None"
    and "is_create_base c \<or> is_list_records c \<Longrightarrow> client_available w s"
    and "json_fault w (json_params c) = Some msg"
  shows "\<exists>s'. run_tool w c s = (Inr (failure msg), s') \<and> network_calls s' = network_calls s"
proof (cases "is_create_base c \<or> is_list_records c")
  case False
  with assms(1,3) show ?thesis
    by (auto dest: json_rejected_simple)
next
  case True
  with assms(2) obtain cl s1
    where cl: "get_airtable_client w s = (Inr cl, s1)" "network_calls s1 = network_calls s"
    by (blast dest: client_availableD)
  from True show ?thesis
  proof
    assume "is_create_base c"
    then obtain name tables workspace_id where c: "c = Create_base name tables workspace_id"
      by (cases c) (simp_all add: is_create_base_def)
    from json_rejected_create_base [OF cl(1)] assms(1,3) cl(2) show ?thesis
      by (auto simp: c)
  next
    assume "is_list_records c"
    then obtain base_id table_id_or_name args where c: "c = List_records base_id table_id_or_name args"
      by (cases c) (simp_all add: is_list_records_def)
    from json_rejected_list_records [OF cl(1)] assms(1,3) cl(2) show ?thesis
      by (auto simp: c)
  qed
qed

theorem rejected_json_parameter_witness:
  "first_blank (required_params (Create_base ''Test'' ''not json'' ''wsp123'')) = None
   \<and> client_available (example_world (Some ''key123'') upstream_down) fresh
   \<and> json_fault (example_world (Some ''key123'') upstream_down)
        (json_params (Create_base ''Test'' ''not json'' ''wsp123'')) =
      Some ''Invalid JSON format for tables parameter: Expecting value: line 1 column 1 (char 0)''
   \<and> run_tool (example_world (Some ''key123'') upstream_down)
        (Create_base ''Test'' ''not json'' ''wsp123'') fresh =
      (Inr (failure
         ''Invalid JSON format for tables parameter: Expecting value: line 1 column 1 (char 0)''),
       \<lparr>airtable_client = Some (AirtableClient ''key123''), network_calls = []\<rparr>)"
proof -
  have a: "first_blank (required_params (Create_base ''Test'' ''not json'' ''wsp123'')) = None"
    by (simp add: blank_defs)
  have b: "client_available (example_world (Some ''key123'') upstream_down) fresh"
    by (simp add: client_available_def example_world_def)
  have c: "json_fault (example_world (Some ''key123'') upstream_down)
        (json_params (Create_base ''Test'' ''not json'' ''wsp123'')) =
      Some ''Invalid JSON format for tables parameter: Expecting value: line 1 column 1 (char 0)''"
    by (simp add: example_world_def example_loads_def)
  from rejected_json_parameter [OF a b c] a b c show ?thesis
    by (simp add: airtable_create_base_def create_base_handlers_def io_defs blank_defs
        example_world_def fresh_def example_loads_def)
qed

lemma blank_lits: "blank '' ''" "\<not> blank ''app1''" "\<not> blank ''tbl1''"
  by (simp_all add: blank_defs)

lemma strip_lits: "strip ''app1'' = ''app1''" "strip ''tbl1'' = ''tbl1''" "strip ''json'' = ''json''"
  "strip ''utc'' = ''utc''"
  by (simp_all add: blank_defs)

text \<open>
  As the claim is worded, any syntactically invalid JSON string is rejected. A single
  space is one (\<^verbatim>\<open>json.loads\<close> raises on it), yet \<^verbatim>\<open>airtable_list_records\<close> treats a
  blank \<^verbatim>\<open>fields\<close> as absent, calls the upstream and reports success.
\<close>

theorem blank_json_parameter_counterexample:
  "json_loads (example_world (Some ''key123'') upstream_empty) '' '' =
     Loads_JSONDecodeError ''Expecting value: line 1 column 2 (char 1)''
   \<and> fst (run_tool (example_world (Some ''key123'') upstream_empty)
        (List_records ''app1'' ''tbl1'' (default_list_args\<lparr>arg_fields := '' ''\<rparr>)) fresh) =
      Inr \<lparr>data = [(''records'', JArr []), (''records_count'', JInt 0), (''offset'', JStr []),
                    (''base_id'', JStr ''app1''), (''table_id_or_name'', JStr ''tbl1''),
                    (''page_size'', JInt 100), (''status'', JStr ''records_retrieved''),
                    (''message'', JStr ''Records retrieved successfully'')],
           error = [], successful = True\<rparr>
   \<and> length (network_calls (snd (run_tool (example_world (Some ''key123'') upstream_empty)
        (List_records ''app1'' ''tbl1'' (default_list_args\<lparr>arg_fields := '' ''\<rparr>)) fresh))) = 1"
proof -
  have loads: "json_loads (example_world (Some ''key123'') upstream_empty) '' '' =
     Loads_JSONDecodeError ''Expecting value: line 1 column 2 (char 1)''"
    by (simp add: example_world_def example_loads_def)
  have skip: "\<And>w pre shape k. parse_optional_list w [] pre shape k = k []"
    "\<And>w pre shape k. parse_optional_list w '' '' pre shape k = k []"
    by (simp_all add: parse_optional_list_def blank_defs)
  have run: "run_tool (example_world (Some ''key123'') upstream_empty)
        (List_records ''app1'' ''tbl1'' (default_list_args\<lparr>arg_fields := '' ''\<rparr>)) fresh =
      (Inr \<lparr>data = [(''records'', JArr []), (''records_count'', JInt 0), (''offset'', JStr []),
                    (''base_id'', JStr ''app1''), (''table_id_or_name'', JStr ''tbl1''),
                    (''page_size'', JInt 100), (''status'', JStr ''records_retrieved''),
                    (''message'', JStr ''Records retrieved successfully'')],
           error = [], successful = True\<rparr>,
       \<lparr>airtable_client = Some (AirtableClient ''key123''),
        network_calls = [list_records_request (AirtableClient ''key123'') ''app1'' ''tbl1''
           \<lparr>opt_cell_format = ''json'', opt_fields = [], opt_filter_by_formula = [],
            opt_max_records = 0, opt_offset = [], opt_page_size = 100,
            opt_record_metadata = [], opt_return_fields_by_field_id = False, opt_sort = [],
            opt_time_zone = ''utc'', opt_user_locale = [], opt_view = []\<rparr>]\<rparr>)"
    by (simp add: airtable_list_records_def blank_lits strip_lits skip default_list_args_def
        strip_if_def io_defs client_list_records_def list_records_data_def py_get_def
        py_len_def example_world_def fresh_def upstream_empty_def)
  show ?thesis
    by (simp only: run loads fst_conv snd_conv) simp
qed


subsection \<open>C5: the bounds of a bulk deletion\<close>

lemma validate_record_ids_good:
  "\<forall>v\<in>set ids. good_record_id v \<Longrightarrow> validate_record_ids i ids = None"
  by (induction i ids rule: validate_record_ids.induct)
    (auto simp: good_record_id_def split: json.splits)

lemma validate_record_ids_bad:
  "\<exists>v\<in>set ids. \<not> good_record_id v \<Longrightarrow> \<exists>m. validate_record_ids i ids = Some m"
  by (induction i ids rule: validate_record_ids.induct)
    (auto simp: good_record_id_def split: json.splits)

lemma get_airtable_client_calls:
  "get_airtable_client w s = (r, s1) \<Longrightarrow> network_calls s1 = network_calls s"
  by (auto simp: get_airtable_client_def split: option.splits if_splits)

lemma forwarded_state:
  assumes "get_airtable_client w s = (Inr c, s1)"
  shows "snd (except_Exception w
           (bind_io (get_airtable_client w) (\<lambda>client.
            bind_io (send_request w (mk client)) (\<lambda>result.
            bind_io (lift (build result)) (\<lambda>d. returns (fin d))))) s) =
         s1\<lparr>network_calls := network_calls s1 @ [mk c]\<rparr>"
  using assms
  by (auto simp: except_Exception_def bind_io_def send_request_def Let_def lift_def returns_def
      split: http_outcome.splits sum.splits prod.splits)

text \<open>
  Claim C5, as amended. \<^verbatim>\<open>airtable_delete_multiple_records\<close>, given non-blank
  identifiers and a \<^verbatim>\<open>record_ids\<close> string that decodes to a list: a list of length 0 or
  of length above 10 is rejected with \<open>successful = False\<close> before any network call; so
  is a list of one to ten entries one of which is not a string or is blank after
  trimming; a list of one to ten strings that are non-empty after trimming is forwarded
  unchanged to the client, which issues one \<^verbatim>\<open>DELETE\<close> request, provided the client can
  be obtained.
\<close>

theorem bulk_delete_bounds:
  assumes "\<not> blank base_id" and "\<not> blank table_id_or_name" and "\<not> blank record_ids"
    and "json_loads w record_ids = Loads_Ok (JArr ids)"
  shows "(ids = [] \<longrightarrow>
            airtable_delete_multiple_records w base_id table_id_or_name record_ids s =
              (Inr (failure ''At least one record ID is required''), s))
       \<and> (10 < length ids \<longrightarrow>
            airtable_delete_multiple_records w base_id table_id_or_name record_ids s =
              (Inr (failure ''Maximum 10 records can be deleted at once''), s))
       \<and> (ids \<noteq> [] \<and> length ids \<le> 10 \<and> (\<exists>v\<in>set ids. \<not> good_record_id v) \<longrightarrow>
            (\<exists>msg. airtable_delete_multiple_records w base_id table_id_or_name record_ids s =
              (Inr (failure msg), s)))
       \<and> (ids \<noteq> [] \<and> length ids \<le> 10 \<and> (\<forall>v\<in>set ids. good_record_id v)
            \<and> get_airtable_client w s = (Inr c, s1) \<longrightarrow>
            network_calls
              (snd (airtable_delete_multiple_records w base_id table_id_or_name record_ids s)) =
            network_calls s @
              [delete_multiple_records_request w c (strip base_id) (strip table_id_or_name) ids])"
proof (intro conjI impI)
  assume "ids = []"
  with assms show "airtable_delete_multiple_records w base_id table_id_or_name record_ids s =
      (Inr (failure ''At least one record ID is required''), s)"
    by (simp add: airtable_delete_multiple_records_def except_returns)
next
  assume "10 < length ids"
  with assms show "airtable_delete_multiple_records w base_id table_id_or_name record_ids s =
      (Inr (failure ''Maximum 10 records can be deleted at once''), s)"
    by (auto simp: airtable_delete_multiple_records_def except_returns)
next
  assume a: "ids \<noteq> [] \<and> length ids \<le> 10 \<and> (\<exists>v\<in>set ids. \<not> good_record_id v)"
  then obtain m where "validate_record_ids 0 ids = Some m"
    using validate_record_ids_bad by blast
  with a assms show "\<exists>msg. airtable_delete_multiple_records w base_id table_id_or_name record_ids s =
      (Inr (failure msg), s)"
    by (auto simp: airtable_delete_multiple_records_def except_returns)
next
  assume a: "ids \<noteq> [] \<and> length ids \<le> 10 \<and> (\<forall>v\<in>set ids. good_record_id v)
      \<and> get_airtable_client w s = (Inr c, s1)"
  then have ok: "validate_record_ids 0 ids = None"
    using validate_record_ids_good by blast
  from a have cl: "get_airtable_client w s = (Inr c, s1)" by simp
  have "airtable_delete_multiple_records w base_id table_id_or_name record_ids s =
      except_Exception w
        (bind_io (get_airtable_client w) (\<lambda>client.
         bind_io (send_request w (delete_multiple_records_request w client
                    (strip base_id) (strip table_id_or_name) ids)) (\<lambda>delete_result.
         bind_io (lift (delete_multiple_records_data delete_result base_id table_id_or_name ids))
           (\<lambda>d. returns \<lparr>data = d, error = [], successful = True\<rparr>)))) s"
    using a assms ok
    by (simp add: airtable_delete_multiple_records_def client_delete_multiple_records_def)
  then show "network_calls
      (snd (airtable_delete_multiple_records w base_id table_id_or_name record_ids s)) =
      network_calls s @
        [delete_multiple_records_request w c (strip base_id) (strip table_id_or_name) ids]"
    using forwarded_state [OF cl, where
        mk = "\<lambda>client. delete_multiple_records_request w client (strip base_id)
                (strip table_id_or_name) ids"
        and build = "\<lambda>r. delete_multiple_records_data r base_id table_id_or_name ids"
        and fin = "\<lambda>d. \<lparr>data = d, error = [], successful = True\<rparr>"]
      get_airtable_client_calls [OF cl]
    by simp
qed


theorem bulk_delete_bounds_witness:
  \<open>\<not> blank ''app1'' \<and> \<not> blank ''tbl1'' \<and> \<not> blank ''["rec1"]''
   \<and> json_loads (example_world (Some ''key123'') upstream_empty) ''["rec1"]'' =
       Loads_Ok (JArr [JStr ''rec1''])
   \<and> good_record_id (JStr ''rec1'')
   \<and> get_airtable_client (example_world (Some ''key123'') upstream_empty) fresh =
       (Inr (AirtableClient ''key123''),
        \<lparr>airtable_client = Some (AirtableClient ''key123''), network_calls = []\<rparr>)
   \<and> network_calls (snd (airtable_delete_multiple_records
         (example_world (Some ''key123'') upstream_empty) ''app1'' ''tbl1'' ''["rec1"]'' fresh)) =
       [delete_multiple_records_request (example_world (Some ''key123'') upstream_empty)
          (AirtableClient ''key123'') ''app1'' ''tbl1'' [JStr ''rec1'']]
   \<and> req_url (delete_multiple_records_request (example_world (Some ''key123'') upstream_empty)
          (AirtableClient ''key123'') ''app1'' ''tbl1'' [JStr ''rec1'']) =
       ''https://api.airtable.com/v0/app1/tbl1?records[]=rec1''\<close>
proof -
  have nb: \<open>\<not> blank ''app1''\<close> \<open>\<not> blank ''tbl1''\<close> \<open>\<not> blank ''["rec1"]''\<close>
    by (simp_all add: blank_defs)
  have st: \<open>strip ''app1'' = ''app1''\<close> \<open>strip ''tbl1'' = ''tbl1''\<close>
    by (simp_all add: blank_defs)
  have loads: \<open>json_loads (example_world (Some ''key123'') upstream_empty) ''["rec1"]'' =
       Loads_Ok (JArr [JStr ''rec1''])\<close>
    by (simp add: example_world_def example_loads_def)
  have good: "good_record_id (JStr ''rec1'')"
    by (simp add: good_record_id_def blank_defs)
  have cl: "get_airtable_client (example_world (Some ''key123'') upstream_empty) fresh =
       (Inr (AirtableClient ''key123''),
        \<lparr>airtable_client = Some (AirtableClient ''key123''), network_calls = []\<rparr>)"
    by (simp add: get_airtable_client_def example_world_def fresh_def)
  have url: "req_url (delete_multiple_records_request (example_world (Some ''key123'') upstream_empty)
          (AirtableClient ''key123'') ''app1'' ''tbl1'' [JStr ''rec1'']) =
       ''https://api.airtable.com/v0/app1/tbl1?records[]=rec1''"
    by (simp add: delete_multiple_records_request_def mk_request_def AirtableClient_def
        format_value_def)
  from bulk_delete_bounds [OF nb loads, where c = "AirtableClient ''key123''"
      and ?s1.0 = "\<lparr>airtable_client = Some (AirtableClient ''key123''), network_calls = []\<rparr>"
      and s = fresh]
    nb loads good cl url
  show ?thesis
    by (simp add: st fresh_def)
qed

text \<open>
  As the claim is worded, a list of one to ten non-empty strings is forwarded. The string
  that holds one space is not empty, yet the tool rejects the list without a network
  call: it tests \<^verbatim>\<open>record_id.strip()\<close>.
\<close>

theorem blank_record_id_in_list_counterexample:
  \<open>json_loads (example_world (Some ''key123'') upstream_empty) ''[" "]'' =
     Loads_Ok (JArr [JStr '' ''])
   \<and> '' '' \<noteq> []
   \<and> airtable_delete_multiple_records (example_world (Some ''key123'') upstream_empty)
       ''app1'' ''tbl1'' ''[" "]'' fresh =
     (Inr (failure ''Record ID at index 0 must be a non-empty string''), fresh)\<close>
proof -
  have nb: \<open>\<not> blank ''app1''\<close> \<open>\<not> blank ''tbl1''\<close> \<open>\<not> blank ''[" "]''\<close>
    by (simp_all add: blank_defs)
  have loads: \<open>json_loads (example_world (Some ''key123'') upstream_empty) ''[" "]'' =
     Loads_Ok (JArr [JStr '' ''])\<close>
    by (simp add: example_world_def example_loads_def)
  have st: "strip '' '' = []"
    by (simp add: blank_defs)
  have zero: "str_nat 0 = ''0''"
    by (simp add: str_nat.simps digit_char_def)
  show ?thesis
    by (simp add: airtable_delete_multiple_records_def nb loads st zero except_returns)
qed


subsection \<open>C6: base creation never reports success\<close>

lemma validate_tables_good:
  "\<forall>t\<in>set ts. \<not> bad_table t \<Longrightarrow> validate_tables i ts = None"
  by (induction i ts rule: validate_tables.induct) (auto simp: bad_table_def)

lemma create_base_message_mentions:
  "contains create_base_message ''Airtable API does not support programmatic base creation''"
  "contains create_base_message ''manually create the base''"
  by code_simp+

lemma create_base_valid_with_client:
  assumes "\<not> blank name" and "\<not> blank workspace_id" and "\<not> blank tables"
    and "json_loads w tables = Loads_Ok (JArr ts)" and "\<forall>t\<in>set ts. \<not> bad_table t"
    and "get_airtable_client w s = (Inr c, s1)"
  shows "\<exists>d. airtable_create_base w name tables workspace_id s =
           (Inr \<lparr>data = d, error = [], successful = False\<rparr>, s1)
         \<and> map_of d ''message'' = Some (JStr create_base_message)"
  using assms validate_tables_good [OF assms(5), of 0]
  by (simp add: airtable_create_base_def create_base_handlers_def bind_io_def returns_def
      lift_def client_create_base_def create_base_data_def bind_exn_def py_get_def)

lemma create_base_without_client:
  assumes "\<not> client_available w s"
  shows "airtable_create_base w name tables workspace_id s =
    (Inr (failure ''Unexpected error: AIRTABLE_API_KEY environment variable is required''), s)"
  using assms
  by (auto simp: client_available_def airtable_create_base_def create_base_handlers_def
      bind_io_def get_airtable_client_def is_Exception_def py_str_def split: option.splits)

text \<open>
  Claim C6, as amended. \<^verbatim>\<open>airtable_create_base\<close>, given valid input (non-blank name,
  workspace and tables string, the latter decoding to a list of objects that each have
  \<^verbatim>\<open>name\<close> and \<^verbatim>\<open>fields\<close>), always returns \<open>successful = False\<close> and issues no network
  call. When the client can be obtained the error is empty and \<^verbatim>\<open>data.message\<close> is the
  fixed text, which mentions that the API does not support programmatic base creation
  and that the base is to be created manually; otherwise the envelope is the
  missing-credential failure with empty data.
\<close>

theorem base_creation_reports_failure:
  assumes "\<not> blank name" and "\<not> blank workspace_id" and "\<not> blank tables"
    and "json_loads w tables = Loads_Ok (JArr ts)" and "\<forall>t\<in>set ts. \<not> bad_table t"
  shows "\<exists>env s'. airtable_create_base w name tables workspace_id s = (Inr env, s')
     \<and> \<not> successful env \<and> network_calls s' = network_calls s
     \<and> (if client_available w s
         then error env = [] \<and> map_of (data env) ''message'' = Some (JStr create_base_message)
         else env = failure ''Unexpected error: AIRTABLE_API_KEY environment variable is required'')
     \<and> contains create_base_message ''Airtable API does not support programmatic base creation''
     \<and> contains create_base_message ''manually create the base''"
proof (cases "client_available w s")
  case True
  then obtain c s1 where cl: "get_airtable_client w s = (Inr c, s1)"
      "network_calls s1 = network_calls s"
    by (blast dest: client_availableD)
  from create_base_valid_with_client [OF assms cl(1)] True cl(2) show ?thesis
    by (auto simp: create_base_message_mentions)
next
  case False
  from create_base_without_client [OF False, of name tables workspace_id] False show ?thesis
    by (simp add: failure_def create_base_message_mentions)
qed

theorem base_creation_reports_failure_witness:
  \<open>\<not> blank ''Test'' \<and> \<not> blank ''wsp123'' \<and> \<not> blank ''[{"name":"T","fields":[]}]''
   \<and> json_loads (example_world (Some ''key123'') upstream_down) ''[{"name":"T","fields":[]}]'' =
       Loads_Ok (JArr [JObj [(''name'', JStr ''T''), (''fields'', JArr [])]])
   \<and> \<not> bad_table (JObj [(''name'', JStr ''T''), (''fields'', JArr [])])
   \<and> client_available (example_world (Some ''key123'') upstream_down) fresh
   \<and> (\<exists>env s'. airtable_create_base (example_world (Some ''key123'') upstream_down)
          ''Test'' ''[{"name":"T","fields":[]}]'' ''wsp123'' fresh = (Inr env, s')
        \<and> \<not> successful env \<and> network_calls s' = [] \<and> error env = []
        \<and> map_of (data env) ''message'' = Some (JStr create_base_message))\<close>
proof -
  have nb: \<open>\<not> blank ''Test''\<close> \<open>\<not> blank ''wsp123''\<close> \<open>\<not> blank ''[{"name":"T","fields":[]}]''\<close>
    by (simp_all add: blank_defs)
  have loads: \<open>json_loads (example_world (Some ''key123'') upstream_down)
      ''[{"name":"T","fields":[]}]'' =
       Loads_Ok (JArr [JObj [(''name'', JStr ''T''), (''fields'', JArr [])]])\<close>
    by (simp add: example_world_def example_loads_def)
  have good: "\<forall>t\<in>set [JObj [(''name'', JStr ''T''), (''fields'', JArr [])]]. \<not> bad_table t"
    by (simp add: bad_table_def is_dict_def has_key_def)
  have cl: "client_available (example_world (Some ''key123'') upstream_down) fresh"
    by (simp add: client_available_def example_world_def)
  from base_creation_reports_failure [OF nb loads good, of fresh] nb loads good cl
  show ?thesis
    by (auto simp: fresh_def)
qed

text \<open>
  As the claim is worded, valid input always yields the informational message. With no
  credential configured the same input yields the missing-credential error and no data.
\<close>

theorem base_creation_without_credential_counterexample:
  \<open>json_loads (example_world None upstream_down) ''[{"name":"T","fields":[]}]'' =
       Loads_Ok (JArr [JObj [(''name'', JStr ''T''), (''fields'', JArr [])]])
   \<and> airtable_create_base (example_world None upstream_down)
       ''Test'' ''[{"name":"T","fields":[]}]'' ''wsp123'' fresh =
     (Inr (failure ''Unexpected error: AIRTABLE_API_KEY environment variable is required''), fresh)
   \<and> map_of (data (failure
        ''Unexpected error: AIRTABLE_API_KEY environment variable is required'')) ''message'' = None\<close>
proof -
  have "\<not> client_available (example_world None upstream_down) fresh"
    by (simp add: client_available_def example_world_def fresh_def)
  then show ?thesis
    by (simp add: create_base_without_client failure_def example_world_def example_loads_def)
qed

subsection \<open>C8: the first rejected entry is cited\<close>

lemma validate_fields_first_bad:
  assumes "i < length fs" and "bad_field (fs ! i)" and "\<forall>j<i. \<not> bad_field (fs ! j)"
  shows "validate_fields k fs =
    Some (''Field at index '' @ str_nat (k + i) @ '' must have 'name' and 'type' properties'')"
  using assms
proof (induction fs arbitrary: k i)
  case Nil
  then show ?case by simp
next
  case (Cons f fs)
  show ?case
  proof (cases i)
    case 0
    with Cons.prems show ?thesis by (simp add: bad_field_def)
  next
    case (Suc i')
    with Cons.prems have "\<not> bad_field f" by auto
    moreover from Suc Cons.prems have "i' < length fs" "bad_field (fs ! i')"
      "\<forall>j<i'. \<not> bad_field (fs ! j)" by auto
    ultimately show ?thesis
      using Cons.IH [of i' "Suc k"] Suc by (simp add: bad_field_def)
  qed
qed

lemma validate_tables_first_bad:
  assumes "i < length ts" and "bad_table (ts ! i)" and "\<forall>j<i. \<not> bad_table (ts ! j)"
  shows "validate_tables k ts =
    Some (''Table at index '' @ str_nat (k + i) @ '' must have 'name' and 'fields' properties'')"
  using assms
proof (induction ts arbitrary: k i)
  case Nil
  then show ?case by simp
next
  case (Cons t ts)
  show ?case
  proof (cases i)
    case 0
    with Cons.prems show ?thesis by (simp add: bad_table_def)
  next
    case (Suc i')
    with Cons.prems have "\<not> bad_table t" by auto
    moreover from Suc Cons.prems have "i' < length ts" "bad_table (ts ! i')"
      "\<forall>j<i'. \<not> bad_table (ts ! j)" by auto
    ultimately show ?thesis
      using Cons.IH [of i' "Suc k"] Suc by (simp add: bad_table_def)
  qed
qed

text \<open>
  Claim C8, as amended. \<^verbatim>\<open>airtable_create_table\<close> and \<^verbatim>\<open>airtable_create_base\<close>, given
  non-blank required parameters and a decoded list, return \<open>successful = False\<close> with a
  message that cites the smallest index \<open>i\<close> whose entry is not an object or lacks a
  required key (\<^verbatim>\<open>name\<close> and \<^verbatim>\<open>type\<close> for a field, \<^verbatim>\<open>name\<close> and \<^verbatim>\<open>fields\<close> for a table),
  before any network call; for the base-creation tool, when the client can be obtained.
\<close>

theorem first_rejected_entry_is_cited:
  assumes "i < length entries"
  shows "(\<not> blank base_id \<and> \<not> blank name \<and> \<not> blank fields_json
          \<and> json_loads w fields_json = Loads_Ok (JArr entries)
          \<and> bad_field (entries ! i) \<and> (\<forall>j<i. \<not> bad_field (entries ! j)) \<longrightarrow>
          airtable_create_table w base_id name fields_json description s =
            (Inr (failure (''Field at index '' @ str_nat i
                           @ '' must have 'name' and 'type' properties'')), s))
       \<and> (\<not> blank base_name \<and> \<not> blank workspace_id \<and> \<not> blank tables
          \<and> json_loads w tables = Loads_Ok (JArr entries)
          \<and> bad_table (entries ! i) \<and> (\<forall>j<i. \<not> bad_table (entries ! j))
          \<and> client_available w s \<longrightarrow>
          (\<exists>s'. airtable_create_base w base_name tables workspace_id s =
            (Inr (failure (''Table at index '' @ str_nat i
                           @ '' must have 'name' and 'fields' properties'')), s')
           \<and> network_calls s' = network_calls s))"
proof (intro conjI impI)
  assume a: "\<not> blank base_id \<and> \<not> blank name \<and> \<not> blank fields_json
      \<and> json_loads w fields_json = Loads_Ok (JArr entries)
      \<and> bad_field (entries ! i) \<and> (\<forall>j<i. \<not> bad_field (entries ! j))"
  with assms have "validate_fields 0 entries =
      Some (''Field at index '' @ str_nat i @ '' must have 'name' and 'type' properties'')"
    using validate_fields_first_bad [of i entries 0] by simp
  with a show "airtable_create_table w base_id name fields_json description s =
      (Inr (failure (''Field at index '' @ str_nat i
                     @ '' must have 'name' and 'type' properties'')), s)"
    by (simp add: airtable_create_table_def except_returns)
next
  assume a: "\<not> blank base_name \<and> \<not> blank workspace_id \<and> \<not> blank tables
      \<and> json_loads w tables = Loads_Ok (JArr entries)
      \<and> bad_table (entries ! i) \<and> (\<forall>j<i. \<not> bad_table (entries ! j))
      \<and> client_available w s"
  then obtain c s1 where cl: "get_airtable_client w s = (Inr c, s1)"
      "network_calls s1 = network_calls s"
    by (blast dest: client_availableD)
  from a assms have v: "validate_tables 0 entries =
      Some (''Table at index '' @ str_nat i @ '' must have 'name' and 'fields' properties'')"
    using validate_tables_first_bad [of i entries 0] by simp
  have "airtable_create_base w base_name tables workspace_id s =
      (Inr (failure (''Table at index '' @ str_nat i
                     @ '' must have 'name' and 'fields' properties'')), s1)"
    unfolding airtable_create_base_def
    by (rule create_base_after_client [OF cl(1)]) (use a v in simp)
  with cl(2) show "\<exists>s'. airtable_create_base w base_name tables workspace_id s =
      (Inr (failure (''Table at index '' @ str_nat i
                     @ '' must have 'name' and 'fields' properties'')), s')
      \<and> network_calls s' = network_calls s"
    by blast
qed


theorem first_rejected_entry_is_cited_witness:
  \<open>(1::nat) < length [JObj [(''name'', JStr ''A''), (''type'', JStr ''number'')],
                       JObj [(''name'', JStr ''B'')]]
   \<and> json_loads (example_world (Some ''key123'') upstream_down)
        ''[{"name":"A","type":"number"},{"name":"B"}]'' =
       Loads_Ok (JArr [JObj [(''name'', JStr ''A''), (''type'', JStr ''number'')],
                       JObj [(''name'', JStr ''B'')]])
   \<and> \<not> bad_field (JObj [(''name'', JStr ''A''), (''type'', JStr ''number'')])
   \<and> bad_field (JObj [(''name'', JStr ''B'')])
   \<and> airtable_create_table (example_world (Some ''key123'') upstream_down) ''app1'' ''People''
        ''[{"name":"A","type":"number"},{"name":"B"}]'' [] fresh =
       (Inr (failure ''Field at index 1 must have 'name' and 'type' properties''), fresh)
   \<and> json_loads (example_world (Some ''key123'') upstream_down) ''[1, 2]'' =
       Loads_Ok (JArr [JInt 1, JInt 2])
   \<and> bad_table (JInt 1)
   \<and> client_available (example_world (Some ''key123'') upstream_down) fresh
   \<and> (\<exists>s'. airtable_create_base (example_world (Some ''key123'') upstream_down) ''Test''
          ''[1, 2]'' ''wsp123'' fresh =
        (Inr (failure ''Table at index 0 must have 'name' and 'fields' properties''), s')
        \<and> network_calls s' = [])\<close>
proof -
  have nb: \<open>\<not> blank ''app1''\<close> \<open>\<not> blank ''People''\<close> \<open>\<not> blank ''Test''\<close>
    \<open>\<not> blank ''wsp123''\<close> \<open>\<not> blank ''[1, 2]''\<close>
    \<open>\<not> blank ''[{"name":"A","type":"number"},{"name":"B"}]''\<close>
    by (simp_all add: blank_defs)
  have loads: \<open>json_loads (example_world (Some ''key123'') upstream_down)
        ''[{"name":"A","type":"number"},{"name":"B"}]'' =
       Loads_Ok (JArr [JObj [(''name'', JStr ''A''), (''type'', JStr ''number'')],
                       JObj [(''name'', JStr ''B'')]])\<close>
    \<open>json_loads (example_world (Some ''key123'') upstream_down) ''[1, 2]'' =
       Loads_Ok (JArr [JInt 1, JInt 2])\<close>
    by (simp_all add: example_world_def example_loads_def)
  have bad: "\<not> bad_field (JObj [(''name'', JStr ''A''), (''type'', JStr ''number'')])"
    "bad_field (JObj [(''name'', JStr ''B'')])" "bad_table (JInt 1)"
    by (simp_all add: bad_field_def bad_table_def is_dict_def has_key_def)
  have cl: "client_available (example_world (Some ''key123'') upstream_down) fresh"
    by (simp add: client_available_def example_world_def)
  have digits: "str_nat 0 = ''0''" "str_nat 1 = ''1''"
    by (simp_all add: str_nat.simps digit_char_def)
  have len: "(1::nat) < length [JObj [(''name'', JStr ''A''), (''type'', JStr ''number'')],
                       JObj [(''name'', JStr ''B'')]]"
    "(0::nat) < length [JInt 1, JInt 2]"
    by simp_all
  from first_rejected_entry_is_cited [where
        w = "example_world (Some ''key123'') upstream_down" and base_id = "''app1''"
        and name = "''People''" and s = fresh and description = "[]"
        and fields_json = \<open>''[{"name":"A","type":"number"},{"name":"B"}]''\<close>,
      OF len(1), THEN conjunct1]
    nb loads bad digits
  have t: \<open>airtable_create_table (example_world (Some ''key123'') upstream_down) ''app1'' ''People''
        ''[{"name":"A","type":"number"},{"name":"B"}]'' [] fresh =
       (Inr (failure ''Field at index 1 must have 'name' and 'type' properties''), fresh)\<close>
    by (simp add: less_Suc_eq)
  from first_rejected_entry_is_cited [where
        w = "example_world (Some ''key123'') upstream_down" and base_name = "''Test''"
        and workspace_id = "''wsp123''" and s = fresh and tables = "''[1, 2]''",
      OF len(2), THEN conjunct2]
    nb loads bad digits cl
  have b: "\<exists>s'. airtable_create_base (example_world (Some ''key123'') upstream_down) ''Test''
          ''[1, 2]'' ''wsp123'' fresh =
        (Inr (failure ''Table at index 0 must have 'name' and 'fields' properties''), s')
        \<and> network_calls s' = []"
    by (simp add: fresh_def)
  from t b loads bad cl show ?thesis
    by simp
qed

text \<open>
  As the claim is worded, the error cites the index of any rejected entry. In the list
  \<^verbatim>\<open>[1, 2]\<close> the entry at index 1 is not an object, yet the message cites index 0 only: the
  loop returns at the first entry it rejects.
\<close>

theorem second_rejected_entry_counterexample:
  "json_loads (example_world (Some ''key123'') upstream_down) ''[1, 2]'' =
     Loads_Ok (JArr [JInt 1, JInt 2])
   \<and> bad_field ([JInt 1, JInt 2] ! 1)
   \<and> airtable_create_table (example_world (Some ''key123'') upstream_down) ''app1'' ''People''
       ''[1, 2]'' [] fresh =
     (Inr (failure ''Field at index 0 must have 'name' and 'type' properties''), fresh)
   \<and> \<not> contains ''Field at index 0 must have 'name' and 'type' properties'' ''index 1''"
proof -
  have nb: "\<not> blank ''app1''" "\<not> blank ''People''" "\<not> blank ''[1, 2]''"
    by (simp_all add: blank_defs)
  have loads: "json_loads (example_world (Some ''key123'') upstream_down) ''[1, 2]'' =
     Loads_Ok (JArr [JInt 1, JInt 2])"
    by (simp add: example_world_def example_loads_def)
  have digits: "str_nat 0 = ''0''"
    by (simp add: str_nat.simps digit_char_def)
  have c: "\<not> contains ''Field at index 0 must have 'name' and 'type' properties'' ''index 1''"
    by code_simp
  show ?thesis
    by (simp add: airtable_create_table_def nb loads digits c except_returns bad_field_def
        is_dict_def)
qed


subsection \<open>C9: what a tool lets escape\<close>

lemma escapes_returns: "escapes (returns x) P"
  by (simp add: escapes_def returns_def)

lemma escapes_raise: "P e \<Longrightarrow> escapes (raise e) P"
  by (simp add: escapes_def raise_def)

lemma escapes_bind:
  "escapes m P \<Longrightarrow> (\<And>x. escapes (f x) P) \<Longrightarrow> escapes (bind_io m f) P"
  by (auto simp: escapes_def bind_io_def split: prod.splits sum.splits)

lemma escapes_lift: "(\<And>e. r = Inl e \<Longrightarrow> P e) \<Longrightarrow> escapes (lift r) P"
  by (simp add: escapes_def lift_def)

lemma escapes_if:
  "(c \<Longrightarrow> escapes a P) \<Longrightarrow> (\<not> c \<Longrightarrow> escapes b P) \<Longrightarrow> escapes (if c then a else b) P"
  by simp

lemma escapes_client: "escapes (get_airtable_client w) is_Exception"
  by (auto simp: escapes_def get_airtable_client_def is_Exception_def
      split: option.splits if_splits)

lemma py_get_raises: "py_get v k d = Inl e \<Longrightarrow> is_Exception e"
  by (auto simp: py_get_def is_Exception_def split: json.splits option.splits)

lemma py_len_raises: "py_len v = Inl e \<Longrightarrow> is_Exception e"
  by (auto simp: py_len_def is_Exception_def split: json.splits)

lemma http_error_handler_raises: "is_Exception (http_error_handler status body str_e)"
  by (auto simp: http_error_handler_def Let_def bind_exn_def is_Exception_def
      split: sum.splits dest: py_get_raises)

lemma escapes_send:
  assumes "\<And>req e. http w req = Raised_Other e \<Longrightarrow> is_Exception e"
  shows "escapes (send_request w req) is_Exception"
  using assms http_error_handler_raises
  by (auto simp: escapes_def send_request_def Let_def is_Exception_def
      split: http_outcome.splits)

lemma escapes_parse_optional:
  assumes "\<And>x e. json_loads w x = Loads_Raises e \<Longrightarrow> is_Exception e"
    and "\<And>xs. escapes (k xs) is_Exception"
  shows "escapes (parse_optional_list w raw pre shape_msg k) is_Exception"
  using assms unfolding parse_optional_list_def
  by (auto split: loads_result.split json.split intro: escapes_returns escapes_raise)

lemma data_raises:
  "create_base_data r0 n0 w0 t0 = Inl e \<Longrightarrow> is_Exception e"
  "create_comment_data r1 a1 b1 c1 d1 = Inl e \<Longrightarrow> is_Exception e"
  "create_field_data r2 a2 b2 c2 d2 e2 f2 = Inl e \<Longrightarrow> is_Exception e"
  "create_multiple_records_data r3 a3 b3 = Inl e \<Longrightarrow> is_Exception e"
  "create_record_data r4 a4 b4 c4 = Inl e \<Longrightarrow> is_Exception e"
  "create_table_data r5 a5 b5 c5 d5 = Inl e \<Longrightarrow> is_Exception e"
  "get_base_schema_data r6 a6 = Inl e \<Longrightarrow> is_Exception e"
  "get_record_data r7 a7 b7 c7 d7 e7 = Inl e \<Longrightarrow> is_Exception e"
  "get_user_info_data r8 = Inl e \<Longrightarrow> is_Exception e"
  "list_bases_data r9 = Inl e \<Longrightarrow> is_Exception e"
  "list_comments_data r10 a10 b10 c10 = Inl e \<Longrightarrow> is_Exception e"
  "delete_record_data r11 a11 b11 c11 = Inl e \<Longrightarrow> is_Exception e"
  "delete_multiple_records_data r12 a12 b12 c12 = Inl e \<Longrightarrow> is_Exception e"
  "update_record_data r13 a13 b13 c13 d13 e13 = Inl e \<Longrightarrow> is_Exception e"
  "update_multiple_records_data r14 a14 b14 = Inl e \<Longrightarrow> is_Exception e"
  "list_records_data r15 a15 b15 c15 = Inl e \<Longrightarrow> is_Exception e"
  by (auto simp: create_base_data_def create_comment_data_def create_field_data_def
      create_multiple_records_data_def create_record_data_def create_table_data_def
      get_base_schema_data_def get_record_data_def get_user_info_data_def list_bases_data_def
      list_comments_data_def delete_record_data_def delete_multiple_records_data_def
      update_record_data_def update_multiple_records_data_def list_records_data_def
      bind_exn_def split: sum.splits dest: py_get_raises py_len_raises)

lemma except_returns_envelope:
  assumes "escapes body is_Exception"
  shows "\<exists>env s'. except_Exception w body s = (Inr env, s')"
  using assms
  by (cases "body s") (auto simp: escapes_def except_Exception_def split: sum.splits)

lemma create_base_handlers_returns_envelope:
  assumes "escapes body is_Exception"
  shows "\<exists>env s'. create_base_handlers w body s = (Inr env, s')"
  using assms
  by (cases "body s")
    (auto simp: escapes_def create_base_handlers_def split: sum.splits exn.splits)

lemmas client_defs = client_create_comment_def client_create_field_def
  client_create_multiple_records_def client_create_record_def client_create_table_def
  client_get_base_schema_def client_get_record_def client_get_user_info_def
  client_list_bases_def client_list_comments_def client_delete_comment_def
  client_delete_record_def client_delete_multiple_records_def client_update_record_def
  client_update_multiple_records_def client_list_records_def

lemmas escapes_rules = escapes_if escapes_returns escapes_bind escapes_client escapes_lift

lemma total_create_comment:
  assumes "\<And>req e. http w req = Raised_Other e \<Longrightarrow> is_Exception e"
    and "\<And>x e. json_loads w x = Loads_Raises e \<Longrightarrow> is_Exception e"
  shows "\<exists>env s'. airtable_create_comment w a b c d s = (Inr env, s')"
  unfolding airtable_create_comment_def client_defs
  apply (rule except_returns_envelope)
  apply (intro escapes_rules escapes_send [OF assms(1)] escapes_parse_optional [OF assms(2)])
  apply (auto split: loads_result.split json.split option.split
      intro!: escapes_rules escapes_raise escapes_send [OF assms(1)]
      dest: data_raises assms(2))
  done

lemma total_create_field:
  assumes "\<And>req e. http w req = Raised_Other e \<Longrightarrow> is_Exception e"
    and "\<And>x e. json_loads w x = Loads_Raises e \<Longrightarrow> is_Exception e"
  shows "\<exists>env s'. airtable_create_field w a b c d e f s = (Inr env, s')"
  unfolding airtable_create_field_def client_defs
  apply (rule except_returns_envelope)
  apply (intro escapes_rules escapes_send [OF assms(1)] escapes_parse_optional [OF assms(2)])
  apply (auto split: loads_result.split json.split option.split
      intro!: escapes_rules escapes_raise escapes_send [OF assms(1)]
      dest: data_raises assms(2))
  done

lemma total_create_multiple_records:
  assumes "\<And>req e. http w req = Raised_Other e \<Longrightarrow> is_Exception e"
    and "\<And>x e. json_loads w x = Loads_Raises e \<Longrightarrow> is_Exception e"
  shows "\<exists>env s'. airtable_create_multiple_records w a b c s = (Inr env, s')"
  unfolding airtable_create_multiple_records_def client_defs
  apply (rule except_returns_envelope)
  apply (intro escapes_rules escapes_send [OF assms(1)] escapes_parse_optional [OF assms(2)])
  apply (auto split: loads_result.split json.split option.split
      intro!: escapes_rules escapes_raise escapes_send [OF assms(1)]
      dest: data_raises assms(2))
  done

lemma total_create_record:
  assumes "\<And>req e. http w req = Raised_Other e \<Longrightarrow> is_Exception e"
    and "\<And>x e. json_loads w x = Loads_Raises e \<Longrightarrow> is_Exception e"
  shows "\<exists>env s'. airtable_create_record w a b c s = (Inr env, s')"
  unfolding airtable_create_record_def client_defs
  apply (rule except_returns_envelope)
  apply (intro escapes_rules escapes_send [OF assms(1)] escapes_parse_optional [OF assms(2)])
  apply (auto split: loads_result.split json.split option.split
      intro!: escapes_rules escapes_raise escapes_send [OF assms(1)]
      dest: data_raises assms(2))
  done

lemma total_create_table:
  assumes "\<And>req e. http w req = Raised_Other e \<Longrightarrow> is_Exception e"
    and "\<And>x e. json_loads w x = Loads_Raises e \<Longrightarrow> is_Exception e"
  shows "\<exists>env s'. airtable_create_table w a b c d s = (Inr env, s')"
  unfolding airtable_create_table_def client_defs
  apply (rule except_returns_envelope)
  apply (intro escapes_rules escapes_send [OF assms(1)] escapes_parse_optional [OF assms(2)])
  apply (auto split: loads_result.split json.split option.split
      intro!: escapes_rules escapes_raise escapes_send [OF assms(1)]
      dest: data_raises assms(2))
  done

lemma total_get_base_schema:
  assumes "\<And>req e. http w req = Raised_Other e \<Longrightarrow> is_Exception e"
    and "\<And>x e. json_loads w x = Loads_Raises e \<Longrightarrow> is_Exception e"
  shows "\<exists>env s'. airtable_get_base_schema w a s = (Inr env, s')"
  unfolding airtable_get_base_schema_def client_defs
  apply (rule except_returns_envelope)
  apply (intro escapes_rules escapes_send [OF assms(1)] escapes_parse_optional [OF assms(2)])
  apply (auto split: loads_result.split json.split option.split
      intro!: escapes_rules escapes_raise escapes_send [OF assms(1)]
      dest: data_raises assms(2))
  done

lemma total_get_record:
  assumes "\<And>req e. http w req = Raised_Other e \<Longrightarrow> is_Exception e"
    and "\<And>x e. json_loads w x = Loads_Raises e \<Longrightarrow> is_Exception e"
  shows "\<exists>env s'. airtable_get_record w a b c d e s = (Inr env, s')"
  unfolding airtable_get_record_def client_defs
  apply (rule except_returns_envelope)
  apply (intro escapes_rules escapes_send [OF assms(1)] escapes_parse_optional [OF assms(2)])
  apply (auto split: loads_result.split json.split option.split
      intro!: escapes_rules escapes_raise escapes_send [OF assms(1)]
      dest: data_raises assms(2))
  done

lemma total_get_user_info:
  assumes "\<And>req e. http w req = Raised_Other e \<Longrightarrow> is_Exception e"
    and "\<And>x e. json_loads w x = Loads_Raises e \<Longrightarrow> is_Exception e"
  shows "\<exists>env s'. airtable_get_user_info w  s = (Inr env, s')"
  unfolding airtable_get_user_info_def client_defs
  apply (rule except_returns_envelope)
  apply (intro escapes_rules escapes_send [OF assms(1)] escapes_parse_optional [OF assms(2)])
  apply (auto split: loads_result.split json.split option.split
      intro!: escapes_rules escapes_raise escapes_send [OF assms(1)]
      dest: data_raises assms(2))
  done

lemma total_list_bases:
  assumes "\<And>req e. http w req = Raised_Other e \<Longrightarrow> is_Exception e"
    and "\<And>x e. json_loads w x = Loads_Raises e \<Longrightarrow> is_Exception e"
  shows "\<exists>env s'. airtable_list_bases w  s = (Inr env, s')"
  unfolding airtable_list_bases_def client_defs
  apply (rule except_returns_envelope)
  apply (intro escapes_rules escapes_send [OF assms(1)] escapes_parse_optional [OF assms(2)])
  apply (auto split: loads_result.split json.split option.split
      intro!: escapes_rules escapes_raise escapes_send [OF assms(1)]
      dest: data_raises assms(2))
  done

lemma total_list_comments:
  assumes "\<And>req e. http w req = Raised_Other e \<Longrightarrow> is_Exception e"
    and "\<And>x e. json_loads w x = Loads_Raises e \<Longrightarrow> is_Exception e"
  shows "\<exists>env s'. airtable_list_comments w a b c s = (Inr env, s')"
  unfolding airtable_list_comments_def client_defs
  apply (rule except_returns_envelope)
  apply (intro escapes_rules escapes_send [OF assms(1)] escapes_parse_optional [OF assms(2)])
  apply (auto split: loads_result.split json.split option.split
      intro!: escapes_rules escapes_raise escapes_send [OF assms(1)]
      dest: data_raises assms(2))
  done

lemma total_delete_record:
  assumes "\<And>req e. http w req = Raised_Other e \<Longrightarrow> is_Exception e"
    and "\<And>x e. json_loads w x = Loads_Raises e \<Longrightarrow> is_Exception e"
  shows "\<exists>env s'. airtable_delete_record w a b c s = (Inr env, s')"
  unfolding airtable_delete_record_def client_defs
  apply (rule except_returns_envelope)
  apply (intro escapes_rules escapes_send [OF assms(1)] escapes_parse_optional [OF assms(2)])
  apply (auto split: loads_result.split json.split option.split
      intro!: escapes_rules escapes_raise escapes_send [OF assms(1)]
      dest: data_raises assms(2))
  done

lemma total_delete_multiple_records:
  assumes "\<And>req e. http w req = Raised_Other e \<Longrightarrow> is_Exception e"
    and "\<And>x e. json_loads w x = Loads_Raises e \<Longrightarrow> is_Exception e"
  shows "\<exists>env s'. airtable_delete_multiple_records w a b c s = (Inr env, s')"
  unfolding airtable_delete_multiple_records_def client_defs
  apply (rule except_returns_envelope)
  apply (intro escapes_rules escapes_send [OF assms(1)] escapes_parse_optional [OF assms(2)])
  apply (auto split: loads_result.split json.split option.split
      intro!: escapes_rules escapes_raise escapes_send [OF assms(1)]
      dest: data_raises assms(2))
  done

lemma total_delete_comment:
  assumes "\<And>req e. http w req = Raised_Other e \<Longrightarrow> is_Exception e"
    and "\<And>x e. json_loads w x = Loads_Raises e \<Longrightarrow> is_Exception e"
  shows "\<exists>env s'. airtable_delete_comment w a b c d s = (Inr env, s')"
  unfolding airtable_delete_comment_def client_defs
  apply (rule except_returns_envelope)
  apply (intro escapes_rules escapes_send [OF assms(1)] escapes_parse_optional [OF assms(2)])
  apply (auto split: loads_result.split json.split option.split
      intro!: escapes_rules escapes_raise escapes_send [OF assms(1)]
      dest: data_raises assms(2))
  done

lemma total_update_record:
  assumes "\<And>req e. http w req = Raised_Other e \<Longrightarrow> is_Exception e"
    and "\<And>x e. json_loads w x = Loads_Raises e \<Longrightarrow> is_Exception e"
  shows "\<exists>env s'. airtable_update_record w a b c d e s = (Inr env, s')"
  unfolding airtable_update_record_def client_defs
  apply (rule except_returns_envelope)
  apply (intro escapes_rules escapes_send [OF assms(1)] escapes_parse_optional [OF assms(2)])
  apply (auto split: loads_result.split json.split option.split
      intro!: escapes_rules escapes_raise escapes_send [OF assms(1)]
      dest: data_raises assms(2))
  done

lemma total_update_multiple_records:
  assumes "\<And>req e. http w req = Raised_Other e \<Longrightarrow> is_Exception e"
    and "\<And>x e. json_loads w x = Loads_Raises e \<Longrightarrow> is_Exception e"
  shows "\<exists>env s'. airtable_update_multiple_records w a b c s = (Inr env, s')"
  unfolding airtable_update_multiple_records_def client_defs
  apply (rule except_returns_envelope)
  apply (intro escapes_rules escapes_send [OF assms(1)] escapes_parse_optional [OF assms(2)])
  apply (auto split: loads_result.split json.split option.split
      intro!: escapes_rules escapes_raise escapes_send [OF assms(1)]
      dest: data_raises assms(2))
  done

lemma total_list_records:
  assumes "\<And>req e. http w req = Raised_Other e \<Longrightarrow> is_Exception e"
    and "\<And>x e. json_loads w x = Loads_Raises e \<Longrightarrow> is_Exception e"
  shows "\<exists>env s'. airtable_list_records w a b args s = (Inr env, s')"
  unfolding airtable_list_records_def client_defs
  apply (rule except_returns_envelope)
  apply (intro escapes_rules escapes_send [OF assms(1)] escapes_parse_optional [OF assms(2)])
  apply (auto split: loads_result.split json.split option.split
      intro!: escapes_rules escapes_raise escapes_send [OF assms(1)]
      dest: data_raises assms(2))
  done

lemma total_create_base:
  assumes "\<And>x e. json_loads w x = Loads_Raises e \<Longrightarrow> is_Exception e"
  shows "\<exists>env s'. airtable_create_base w a b c s = (Inr env, s')"
  unfolding airtable_create_base_def client_create_base_def
  apply (rule create_base_handlers_returns_envelope)
  apply (intro escapes_rules)
  apply (auto split: loads_result.split json.split option.split
      intro!: escapes_rules escapes_raise dest: data_raises assms)
  done

text \<open>
  Claim C9, as amended. Every tool is total for the exceptions derived from
  \<^verbatim>\<open>Exception\<close>: for every input, and for every outcome of the decoder and of the
  delegated client call that is a value or such an exception, the tool returns an
  envelope and nothing propagates to the caller. An exception outside \<^verbatim>\<open>Exception\<close>
  (KeyboardInterrupt, SystemExit) is not caught.
\<close>

theorem tools_recover_exceptions:
  assumes "\<And>req e. http w req = Raised_Other e \<Longrightarrow> is_Exception e"
    and "\<And>x e. json_loads w x = Loads_Raises e \<Longrightarrow> is_Exception e"
  shows "\<exists>env s'. run_tool w c s = (Inr env, s')"
  by (cases c)
    (simp_all add: assms total_create_base total_create_comment total_create_field
      total_create_multiple_records total_create_record total_create_table
      total_get_base_schema total_get_record total_get_user_info total_list_bases
      total_list_comments total_delete_record total_delete_multiple_records
      total_delete_comment total_update_record total_update_multiple_records
      total_list_records)

theorem tools_recover_exceptions_witness:
  "http (example_world (Some ''key123'') upstream_garbled)
      (list_bases_request (AirtableClient ''key123'')) =
     Raised_Other (PyException ''ValueError'' ''Expecting value: line 1 column 1 (char 0)'')
   \<and> is_Exception (PyException ''ValueError'' ''Expecting value: line 1 column 1 (char 0)'')
   \<and> run_tool (example_world (Some ''key123'') upstream_garbled) List_bases fresh =
     (Inr (failure ''Unexpected error: Expecting value: line 1 column 1 (char 0)''),
      \<lparr>airtable_client = Some (AirtableClient ''key123''),
       network_calls = [list_bases_request (AirtableClient ''key123'')]\<rparr>)"
proof -
  have h1: "\<And>req e. http (example_world (Some ''key123'') upstream_garbled) req = Raised_Other e
      \<Longrightarrow> is_Exception e"
    by (auto simp: example_world_def upstream_garbled_def is_Exception_def)
  have h2: "\<And>x e. json_loads (example_world (Some ''key123'') upstream_garbled) x = Loads_Raises e
      \<Longrightarrow> is_Exception e"
    by (auto simp: example_world_def example_loads_def split: if_splits)
  from tools_recover_exceptions [OF h1 h2, where c = List_bases and s = fresh] show ?thesis
    by (simp add: airtable_list_bases_def io_defs client_list_bases_def example_world_def
        upstream_garbled_def fresh_def py_str_def)
qed

text \<open>
  As the claim is worded, an exception of any type is recovered. A
  \<^verbatim>\<open>KeyboardInterrupt\<close> raised during the network call is outside \<^verbatim>\<open>Exception\<close>: no
  handler of the client or of the tool matches it and it leaves the tool.
\<close>

theorem keyboard_interrupt_counterexample:
  "run_tool (example_world (Some ''key123'') upstream_interrupted) List_bases fresh =
     (Inl (PyBaseException ''KeyboardInterrupt'' []),
      \<lparr>airtable_client = Some (AirtableClient ''key123''),
       network_calls = [list_bases_request (AirtableClient ''key123'')]\<rparr>)"
  by (simp add: airtable_list_bases_def io_defs client_list_bases_def example_world_def
      upstream_interrupted_def fresh_def)


end
